theory Spec2Isabelle
  imports Complex_Main "HOL-Library.AList"
begin

section \<open>Python values and the operations the monitor uses on them\<close>

text \<open>
  The monitor of \<^verbatim>\<open>monitor_and_scale_down.py\<close> works on documents decoded from JSON
  (the Atlas cluster description, the cluster configuration file) with Python's dynamic
  operations. A document is a value of \<open>json\<close>; a Python \<^verbatim>\<open>dict\<close> keeps its insertion
  order, so an object is an association list. Python's \<^verbatim>\<open>None\<close> is \<open>JNull\<close>.
  A Python float is modelled by the real number it denotes (no rounding, no NaN or
  infinity); a string is a list of 8-bit characters, so only ASCII text is modelled
  exactly.
\<close>

datatype json =
    JNull
  | JBool bool
  | JInt int
  | JFloat real
  | JStr string
  | JArr "json list"
  | JObj "(string \<times> json) list"

datatype py_error =
    AttributeError
  | TypeError
  | KeyError
  | IndexError
  | ValueError
  | HTTPError

type_synonym 'a result = "py_error + 'a"

text \<open>Sequencing of computations that may raise: the first exception wins.\<close>

definition bind :: "'a result \<Rightarrow> ('a \<Rightarrow> 'b result) \<Rightarrow> 'b result" where
  "bind m f = (case m of Inl e \<Rightarrow> Inl e | Inr x \<Rightarrow> f x)"

text \<open>Truth value of a Python object, as \<^verbatim>\<open>if x\<close> and \<^verbatim>\<open>not x\<close> test it.\<close>

fun truthy :: "json \<Rightarrow> bool" where
  "truthy JNull = False"
| "truthy (JBool b) = b"
| "truthy (JInt i) = (i \<noteq> 0)"
| "truthy (JFloat r) = (r \<noteq> 0)"
| "truthy (JStr s) = (s \<noteq> [])"
| "truthy (JArr xs) = (xs \<noteq> [])"
| "truthy (JObj kvs) = (kvs \<noteq> [])"

text \<open>\<^verbatim>\<open>d.get(k, default)\<close>: only a dict has the method.\<close>

fun py_get :: "json \<Rightarrow> string \<Rightarrow> json \<Rightarrow> json result" where
  "py_get (JObj kvs) k dflt = Inr (case map_of kvs k of None \<Rightarrow> dflt | Some v \<Rightarrow> v)"
| "py_get _ k dflt = Inl AttributeError"

text \<open>\<^verbatim>\<open>len(x)\<close>: defined on strings, lists and dicts.\<close>

fun py_len :: "json \<Rightarrow> int result" where
  "py_len (JStr s) = Inr (int (length s))"
| "py_len (JArr xs) = Inr (int (length xs))"
| "py_len (JObj kvs) = Inr (int (length kvs))"
| "py_len _ = Inl TypeError"

text \<open>\<^verbatim>\<open>k in x\<close> for a string \<open>k\<close>: a key of a dict, an element of a list, a
  substring of a string; other objects are not containers.\<close>

definition is_prefix :: "string \<Rightarrow> string \<Rightarrow> bool" where
  "is_prefix p s = (take (length p) s = p)"

fun is_substring :: "string \<Rightarrow> string \<Rightarrow> bool" where
  "is_substring k [] = (k = [])"
| "is_substring k (c # cs) = (is_prefix k (c # cs) \<or> is_substring k cs)"

fun py_contains :: "string \<Rightarrow> json \<Rightarrow> bool result" where
  "py_contains k (JObj kvs) = Inr (map_of kvs k \<noteq> None)"
| "py_contains k (JArr xs) = Inr (JStr k \<in> set xs)"
| "py_contains k (JStr s) = Inr (is_substring k s)"
| "py_contains k _ = Inl TypeError"

subsection \<open>The built-in \<^verbatim>\<open>int\<close>\<close>

text \<open>
  \<^verbatim>\<open>int(s)\<close> for a string, base 10: surrounding whitespace is dropped, one sign is
  allowed, then decimal digits, single underscores allowed between digits. Anything else
  raises \<^verbatim>\<open>ValueError\<close>. (Decimal digits and whitespace outside ASCII, and the limit
  on the number of digits of recent interpreters, are not modelled.)
\<close>

definition py_isspace :: "char \<Rightarrow> bool" where
  "py_isspace c = (c \<in> set [CHR 0x09, CHR 0x0A, CHR 0x0B, CHR 0x0C, CHR 0x0D,
                             CHR 0x1C, CHR 0x1D, CHR 0x1E, CHR 0x1F, CHR 0x20])"

definition strip_ws :: "string \<Rightarrow> string" where
  "strip_ws s = rev (dropWhile py_isspace (rev (dropWhile py_isspace s)))"

definition digit_val :: "char \<Rightarrow> nat option" where
  "digit_val c = map_of (zip ''0123456789'' [0, 1, 2, 3, 4, 5, 6, 7, 8, 9]) c"

fun digits_acc :: "nat \<Rightarrow> string \<Rightarrow> nat option" where
  "digits_acc acc [] = Some acc"
| "digits_acc acc [c] =
     (case digit_val c of None \<Rightarrow> None | Some v \<Rightarrow> Some (10 * acc + v))"
| "digits_acc acc (c # d # ds) =
     (if c = CHR ''_''
      then (case digit_val d of None \<Rightarrow> None | Some v \<Rightarrow> digits_acc (10 * acc + v) ds)
      else (case digit_val c of None \<Rightarrow> None | Some v \<Rightarrow> digits_acc (10 * acc + v) (d # ds)))"

definition py_int_str :: "string \<Rightarrow> int result" where
  "py_int_str s =
     (let t = strip_ws s;
          neg = (t \<noteq> [] \<and> hd t = CHR ''-'');
          body = (if t \<noteq> [] \<and> (hd t = CHR ''-'' \<or> hd t = CHR ''+'') then tl t else t)
      in case body of
           [] \<Rightarrow> Inl ValueError
         | c # cs \<Rightarrow>
             (case digit_val c of
                None \<Rightarrow> Inl ValueError
              | Some v \<Rightarrow>
                  (case digits_acc v cs of
                     None \<Rightarrow> Inl ValueError
                   | Some n \<Rightarrow> Inr (if neg then - int n else int n))))"

text \<open>\<^verbatim>\<open>int(x)\<close> on any value: a float is truncated towards zero, a bool counts as
  0 or 1, \<^verbatim>\<open>None\<close>, lists and dicts raise \<^verbatim>\<open>TypeError\<close>.\<close>

definition trunc :: "real \<Rightarrow> int" where
  "trunc r = (if 0 \<le> r then \<lfloor>r\<rfloor> else \<lceil>r\<rceil>)"

fun py_int :: "json \<Rightarrow> int result" where
  "py_int (JInt i) = Inr i"
| "py_int (JFloat r) = Inr (trunc r)"
| "py_int (JBool b) = Inr (if b then 1 else 0)"
| "py_int (JStr s) = py_int_str s"
| "py_int _ = Inl TypeError"

subsection \<open>Strings\<close>

definition upper_char :: "char \<Rightarrow> char" where
  "upper_char c =
     (case map_of (zip ''abcdefghijklmnopqrstuvwxyz'' ''ABCDEFGHIJKLMNOPQRSTUVWXYZ'') c of
        Some u \<Rightarrow> u
      | None \<Rightarrow> c)"

definition py_upper :: "string \<Rightarrow> string" where
  "py_upper s = map upper_char s"

text \<open>\<^verbatim>\<open>s.startswith((p1, p2, ...))\<close> with a tuple of prefixes.\<close>

definition startswith_any :: "string \<Rightarrow> string list \<Rightarrow> bool" where
  "startswith_any s ps = (\<exists>p \<in> set ps. is_prefix p s)"

section \<open>Tier arithmetic\<close>

text \<open>
  \<^verbatim>\<open>_tier_to_number\<close> (lines 119--128). The \<^verbatim>\<open>try\<close> block catches
  \<^verbatim>\<open>ValueError\<close> and \<^verbatim>\<open>TypeError\<close> only; any other exception would leave the
  function, so the result is a \<open>result\<close>.
\<close>

definition isinstance_str :: "json \<Rightarrow> bool" where
  "isinstance_str x = (case x of JStr s \<Rightarrow> True | _ \<Rightarrow> False)"

definition tier_to_number :: "json \<Rightarrow> int result" where
  "tier_to_number tier_str =
     (if \<not> truthy tier_str \<or> \<not> isinstance_str tier_str then Inr 0
      else case tier_str of
             JStr s \<Rightarrow>
               (case (if startswith_any (py_upper s) [''M'', ''R'']
                      then py_int_str (tl s)
                      else py_int_str s) of
                  Inr n \<Rightarrow> Inr n
                | Inl e \<Rightarrow> if e = ValueError \<or> e = TypeError then Inr 0 else Inl e)
           | _ \<Rightarrow> Inl AttributeError)"

section \<open>Safety evaluator\<close>

text \<open>Constants of the module (lines 31--39).\<close>

definition DEFAULT_NODE_COUNT :: int where "DEFAULT_NODE_COUNT = 3"
definition CPU_THRESHOLD :: real where "CPU_THRESHOLD = 35.0"
definition MEMORY_THRESHOLD_PERCENT :: real where "MEMORY_THRESHOLD_PERCENT = 0.6"
definition IOPS_THRESHOLD_PERCENT :: real where "IOPS_THRESHOLD_PERCENT = 0.6"
definition CONNECTIONS_THRESHOLD_PERCENT :: real where "CONNECTIONS_THRESHOLD_PERCENT = 0.5"
definition NEW_SCALE_UP_THRESHOLD_HOURS :: int where "NEW_SCALE_UP_THRESHOLD_HOURS = 24"

text \<open>
  One row of the tier table, as \<^verbatim>\<open>load_tier_specs\<close> builds it: \<^verbatim>\<open>ram\<close> is
  a float, \<^verbatim>\<open>connection\<close> and \<^verbatim>\<open>iops\<close> are integers. The evaluator reads
  each with \<^verbatim>\<open>.get(key, 0)\<close>, so a field may be absent. The table maps tier names
  to rows.
\<close>

record tier_spec =
  ram :: "real option"
  connection :: "int option"
  iops :: "int option"

type_synonym tier_specs = "string \<rightharpoonup> tier_spec"

text \<open>The metric summary: the dict of \<^verbatim>\<open>_default_metrics\<close> and
  \<^verbatim>\<open>get_cluster_metrics\<close>, which always holds these nine keys.\<close>

record metrics =
  cpu_max :: real
  cpu_avg :: real
  cpu_std :: real
  memory_max_gb :: real
  memory_avg_gb :: real
  iops_max :: real
  iops_avg :: real
  connections_max :: real
  connections_avg :: real

definition default_metrics :: metrics where
  "default_metrics =
     \<lparr>cpu_max = 0, cpu_avg = 0, cpu_std = 0, memory_max_gb = 0, memory_avg_gb = 0,
      iops_max = 0, iops_avg = 0, connections_max = 0, connections_avg = 0\<rparr>"

text \<open>
  The reasons of \<^verbatim>\<open>check_safety_conditions\<close> are formatted strings; a reason is
  modelled by the message it is and the values the message prints.
\<close>

datatype reason =
    MissingTierSpecs string string
  | CpuAboveThreshold real
  | MemoryAboveThreshold real string real
  | MemoryThresholdUnknown string
  | IopsAboveThreshold real string real
  | ConnectionsAboveThreshold real string real

datatype rule =
    TierSpecsRule | CpuRule | MemoryRule | MemoryBoundRule | IopsRule | ConnectionsRule

fun rule_of :: "reason \<Rightarrow> rule" where
  "rule_of (MissingTierSpecs b c) = TierSpecsRule"
| "rule_of (CpuAboveThreshold v) = CpuRule"
| "rule_of (MemoryAboveThreshold v t th) = MemoryRule"
| "rule_of (MemoryThresholdUnknown t) = MemoryBoundRule"
| "rule_of (IopsAboveThreshold v t th) = IopsRule"
| "rule_of (ConnectionsAboveThreshold v t th) = ConnectionsRule"

definition get_or :: "'a option \<Rightarrow> 'a \<Rightarrow> 'a" where
  "get_or x dflt = (case x of None \<Rightarrow> dflt | Some v \<Rightarrow> v)"

text \<open>\<^verbatim>\<open>check_safety_conditions\<close> (lines 277--314).\<close>

definition check_safety_conditions ::
  "string \<Rightarrow> string \<Rightarrow> metrics \<Rightarrow> tier_specs \<Rightarrow> bool \<times> reason list" where
  "check_safety_conditions base_tier current_tier m specs =
     (if specs base_tier = None \<or> specs current_tier = None
      then (False, [MissingTierSpecs base_tier current_tier])
      else
        let current_spec = the (specs current_tier);
            base_spec = the (specs base_tier);
            reasons1 =
              (if cpu_avg m \<ge> CPU_THRESHOLD then [CpuAboveThreshold (cpu_avg m)] else []);
            current_ram = get_or (ram current_spec) 0;
            reasons2 =
              (if current_ram > 0
               then (let memory_threshold = current_ram * MEMORY_THRESHOLD_PERCENT
                     in if memory_avg_gb m \<ge> memory_threshold
                        then reasons1 @
                          [MemoryAboveThreshold (memory_avg_gb m) current_tier memory_threshold]
                        else reasons1)
               else reasons1 @ [MemoryThresholdUnknown current_tier]);
            current_iops = get_or (iops current_spec) 0;
            iops_threshold = of_int current_iops * IOPS_THRESHOLD_PERCENT;
            reasons3 =
              (if iops_avg m \<ge> iops_threshold
               then reasons2 @ [IopsAboveThreshold (iops_avg m) current_tier iops_threshold]
               else reasons2);
            base_connection = get_or (connection base_spec) 0;
            connections_threshold = of_int base_connection * CONNECTIONS_THRESHOLD_PERCENT;
            reasons4 =
              (if connections_avg m \<ge> connections_threshold
               then reasons3 @
                 [ConnectionsAboveThreshold (connections_avg m) base_tier connections_threshold]
               else reasons3)
        in (reasons4 = [], reasons4))"

section \<open>Staleness and dwell-window gate\<close>

text \<open>
  A \<^verbatim>\<open>datetime\<close> is its wall-clock reading in microseconds and, when it is aware,
  its offset from UTC in microseconds. A \<^verbatim>\<open>timedelta\<close> is a number of
  microseconds. \<^verbatim>\<open>datetime.fromisoformat\<close> belongs to the standard library and is
  a parameter: \<open>None\<close> stands for the \<^verbatim>\<open>ValueError\<close> it raises.
\<close>

record datetime =
  wall_us :: int
  tzinfo :: "int option"

type_synonym timedelta = int

definition utc_instant :: "datetime \<Rightarrow> int" where
  "utc_instant dt = wall_us dt - get_or (tzinfo dt) 0"

definition total_seconds :: "timedelta \<Rightarrow> real" where
  "total_seconds td = of_int td / 1000000"

definition endswith :: "string \<Rightarrow> string \<Rightarrow> bool" where
  "endswith s suffix = is_prefix (rev suffix) (rev s)"

definition replace_char :: "char \<Rightarrow> string \<Rightarrow> string \<Rightarrow> string" where
  "replace_char c new s = concat (map (\<lambda>x. if x = c then new else [x]) s)"

text \<open>\<^verbatim>\<open>_parse_timestamp\<close> (lines 89--102); \<open>None\<close> is Python's \<^verbatim>\<open>None\<close>.
  A value that is not a string has no \<^verbatim>\<open>endswith\<close>; the \<^verbatim>\<open>except Exception\<close>
  clause turns that into \<^verbatim>\<open>None\<close> as well.\<close>

definition parse_timestamp :: "(string \<Rightarrow> datetime option) \<Rightarrow> json \<Rightarrow> datetime option" where
  "parse_timestamp fromisoformat timestamp_str =
     (if \<not> truthy timestamp_str then None
      else case timestamp_str of
             JStr s \<Rightarrow>
               (case (if endswith s ''Z''
                      then fromisoformat (replace_char (CHR ''Z'') ''+00:00'' s)
                      else fromisoformat s) of
                  None \<Rightarrow> None
                | Some dt \<Rightarrow> Some (if tzinfo dt = None then dt\<lparr>tzinfo := Some 0\<rparr> else dt))
           | _ \<Rightarrow> None)"

text \<open>\<^verbatim>\<open>check_time_since_update\<close> (lines 356--367) and
  \<^verbatim>\<open>is_timestamp_very_old\<close> (lines 369--381); \<open>now\<close> is the instant
  \<^verbatim>\<open>datetime.now(timezone.utc)\<close> returns in the call.\<close>

definition check_time_since_update ::
  "(string \<Rightarrow> datetime option) \<Rightarrow> int \<Rightarrow> json \<Rightarrow> int \<Rightarrow> bool \<times> timedelta option" where
  "check_time_since_update fromisoformat now last_tier_update min_hours =
     (if \<not> truthy last_tier_update then (True, None)
      else case parse_timestamp fromisoformat last_tier_update of
             None \<Rightarrow> (True, None)
           | Some last_update \<Rightarrow>
               let time_diff = now - utc_instant last_update;
                   hours_passed = total_seconds time_diff / 3600
               in (hours_passed \<ge> of_int min_hours, Some time_diff))"

definition is_timestamp_very_old ::
  "(string \<Rightarrow> datetime option) \<Rightarrow> int \<Rightarrow> json \<Rightarrow> int \<Rightarrow> bool \<times> timedelta option" where
  "is_timestamp_very_old fromisoformat now last_tier_update threshold_hours =
     (if \<not> truthy last_tier_update then (True, None)
      else case parse_timestamp fromisoformat last_tier_update of
             None \<Rightarrow> (True, None)
           | Some last_update \<Rightarrow>
               let time_diff = now - utc_instant last_update;
                   hours_passed = total_seconds time_diff / 3600
               in (hours_passed \<ge> of_int threshold_hours, Some time_diff))"

section \<open>Cluster documents\<close>

text \<open>
  More of Python's operations on decoded JSON. A dict is an association list in
  insertion order: \<^verbatim>\<open>d[k] = v\<close> is \<^const>\<open>AList.update\<close> (it replaces the value of an
  existing key in place and appends a new key at the end) and \<^verbatim>\<open>d.pop(k, None)\<close> is
  \<^const>\<open>AList.delete\<close>.
\<close>

text \<open>\<^verbatim>\<open>x[i]\<close> for an integer \<open>i\<close>. The keys of a decoded JSON object are strings,
  so an integer key is never found.\<close>

fun py_index :: "json \<Rightarrow> int \<Rightarrow> json result" where
  "py_index (JArr xs) i =
     (let n = int (length xs); j = (if i < 0 then i + n else i)
      in if 0 \<le> j \<and> j < n then Inr (xs ! nat j) else Inl IndexError)"
| "py_index (JStr s) i =
     (let n = int (length s); j = (if i < 0 then i + n else i)
      in if 0 \<le> j \<and> j < n then Inr (JStr [s ! nat j]) else Inl IndexError)"
| "py_index (JObj kvs) i = Inl KeyError"
| "py_index _ i = Inl TypeError"

text \<open>\<^verbatim>\<open>d.values()\<close> and \<^verbatim>\<open>d.items()\<close>, as lists.\<close>

fun py_values :: "json \<Rightarrow> json list result" where
  "py_values (JObj kvs) = Inr (map snd kvs)"
| "py_values _ = Inl AttributeError"

fun py_items :: "json \<Rightarrow> (string \<times> json) list result" where
  "py_items (JObj kvs) = Inr kvs"
| "py_items _ = Inl AttributeError"

text \<open>The elements a \<^verbatim>\<open>for\<close> loop visits: the items of a list, the characters of a
  string, the keys of a dict.\<close>

fun py_iter :: "json \<Rightarrow> json list result" where
  "py_iter (JArr xs) = Inr xs"
| "py_iter (JStr s) = Inr (map (\<lambda>c. JStr [c]) s)"
| "py_iter (JObj kvs) = Inr (map (\<lambda>kv. JStr (fst kv)) kvs)"
| "py_iter _ = Inl TypeError"

text \<open>A loop body run over a list, stopping at the first exception: collecting the
  results, and threading a state.\<close>

fun mapM :: "('a \<Rightarrow> 'b result) \<Rightarrow> 'a list \<Rightarrow> 'b list result" where
  "mapM f [] = Inr []"
| "mapM f (x # xs) = bind (f x) (\<lambda>y. bind (mapM f xs) (\<lambda>ys. Inr (y # ys)))"

fun foldM :: "('s \<Rightarrow> 'a \<Rightarrow> 's result) \<Rightarrow> 'a list \<Rightarrow> 's \<Rightarrow> 's result" where
  "foldM f [] s = Inr s"
| "foldM f (x # xs) s = bind (f s x) (foldM f xs)"

subsection \<open>Shard locator\<close>

text \<open>
  \<^verbatim>\<open>_get_region_config\<close> (lines 104--117). \<open>spec_region_config\<close> is its second half
  (lines 110--117), the part that works on one entry of \<^verbatim>\<open>replicationSpecs\<close>.
\<close>

definition spec_region_config :: "json \<Rightarrow> json result" where
  "spec_region_config spec =
     bind (py_get spec ''regionConfigs'' (JArr [])) (\<lambda>region_configs.
     bind (py_get spec ''regionsConfig'' JNull) (\<lambda>probe.
     bind (if \<not> truthy region_configs \<and> truthy probe
           then bind (py_get spec ''regionsConfig'' (JObj [])) (\<lambda>regions_obj.
                  if truthy regions_obj
                  then bind (py_values regions_obj) (\<lambda>vs.
                       bind (py_index (JArr vs) 0) (\<lambda>v. Inr (JArr [v])))
                  else Inr region_configs)
           else Inr region_configs) (\<lambda>region_configs.
     if truthy region_configs then py_index region_configs 0 else Inr JNull)))"

definition get_region_config :: "json \<Rightarrow> int \<Rightarrow> json result" where
  "get_region_config cluster_info shard_index =
     bind (py_get cluster_info ''replicationSpecs'' (JArr [])) (\<lambda>replication_specs.
     if shard_index < 0 then Inr JNull
     else bind (py_len replication_specs) (\<lambda>n.
          if shard_index \<ge> n then Inr JNull
          else bind (py_index replication_specs shard_index) spec_region_config))"

text \<open>
  The region config \<^verbatim>\<open>_get_region_config\<close> returns is an object inside the document,
  and the caller changes it in place. \<open>spec_put_region_config\<close> writes a new value at the
  place the accessor read from: the first element of a non-empty \<^verbatim>\<open>regionConfigs\<close>
  list, or else the first value of the \<^verbatim>\<open>regionsConfig\<close> mapping.
\<close>

definition spec_put_region_config :: "json \<Rightarrow> json \<Rightarrow> json" where
  "spec_put_region_config spec rc =
     (case spec of
        JObj kvs \<Rightarrow>
          (case map_of kvs ''regionConfigs'' of
             Some (JArr (r # rs)) \<Rightarrow> JObj (AList.update ''regionConfigs'' (JArr (rc # rs)) kvs)
           | Some other \<Rightarrow>
               (if truthy other then spec
                else case map_of kvs ''regionsConfig'' of
                       Some (JObj ((name, r) # rest)) \<Rightarrow>
                         JObj (AList.update ''regionsConfig'' (JObj ((name, rc) # rest)) kvs)
                     | _ \<Rightarrow> spec)
           | None \<Rightarrow>
               (case map_of kvs ''regionsConfig'' of
                  Some (JObj ((name, r) # rest)) \<Rightarrow>
                    JObj (AList.update ''regionsConfig'' (JObj ((name, rc) # rest)) kvs)
                | _ \<Rightarrow> spec))
      | _ \<Rightarrow> spec)"

definition put_region_config ::
  "(string \<times> json) list \<Rightarrow> int \<Rightarrow> json \<Rightarrow> (string \<times> json) list" where
  "put_region_config document shard_index rc =
     (case map_of document ''replicationSpecs'' of
        Some (JArr specs) \<Rightarrow>
          AList.update ''replicationSpecs''
            (JArr (specs[nat shard_index :=
                     spec_put_region_config (specs ! nat shard_index) rc])) document
      | _ \<Rightarrow> document)"

text \<open>\<^verbatim>\<open>check_shard_tier\<close> (lines 316--322).\<close>

definition check_shard_tier :: "json \<Rightarrow> int \<Rightarrow> json result" where
  "check_shard_tier cluster_info shard_index =
     bind (get_region_config cluster_info shard_index) (\<lambda>region_config.
     if truthy region_config
     then bind (py_get region_config ''effectiveElectableSpecs'' (JObj [])) (\<lambda>effective_specs.
          py_get effective_specs ''instanceSize'' JNull)
     else Inr JNull)"

text \<open>\<^verbatim>\<open>check_autoscale_limits\<close> (lines 324--354); its reasons are formatted strings
  too.\<close>

datatype autoscale_reason =
    NoRegionConfig int
  | NoComputeConfig int
  | MinMaxNotConfigured int
  | BaseTierOutsideLimits string json json
  | ScaleUpTierOutsideLimits string json json

definition check_autoscale_limits ::
  "json \<Rightarrow> int \<Rightarrow> string \<Rightarrow> string \<Rightarrow> (bool \<times> autoscale_reason list) result" where
  "check_autoscale_limits cluster_info shard_index base_tier scale_up_tier =
     bind (get_region_config cluster_info shard_index) (\<lambda>region_config.
     if \<not> truthy region_config then Inr (False, [NoRegionConfig shard_index])
     else
     bind (py_get region_config ''autoScaling'' (JObj [])) (\<lambda>auto_scaling.
     bind (py_get auto_scaling ''compute'' (JObj [])) (\<lambda>compute_cfg.
     if \<not> truthy compute_cfg then Inr (False, [NoComputeConfig shard_index])
     else
     bind (py_get compute_cfg ''minInstanceSize'' (JStr [])) (\<lambda>min_instance_size.
     bind (py_get compute_cfg ''maxInstanceSize'' (JStr [])) (\<lambda>max_instance_size.
     if \<not> truthy min_instance_size \<or> \<not> truthy max_instance_size
     then Inr (False, [MinMaxNotConfigured shard_index])
     else
     bind (tier_to_number (JStr base_tier)) (\<lambda>base_num.
     bind (tier_to_number (JStr scale_up_tier)) (\<lambda>scale_up_num.
     bind (tier_to_number min_instance_size) (\<lambda>min_num.
     bind (tier_to_number max_instance_size) (\<lambda>max_num.
     let reasons1 =
           (if base_num < min_num \<or> base_num > max_num
            then [BaseTierOutsideLimits base_tier min_instance_size max_instance_size]
            else []);
         reasons2 =
           (if scale_up_num < min_num \<or> scale_up_num > max_num
            then reasons1 @
              [ScaleUpTierOutsideLimits scale_up_tier min_instance_size max_instance_size]
            else reasons1)
     in Inr (reasons2 = [], reasons2))))))))))"

subsection \<open>Batch mutation builder\<close>

text \<open>One pending change: the dict \<^verbatim>\<open>{'shard_index': ..., 'current_disk_size': ...}\<close>
  that \<^verbatim>\<open>check_and_scale_down_shard\<close> returns. The shard index is an integer (the
  source's annotation); the disk size is whatever the cluster document held.\<close>

record shard_update =
  u_shard_index :: int
  u_current_disk_size :: json

definition read_only_fields :: "string list" where
  "read_only_fields =
     [''id'', ''mongoURI'', ''connectionStrings'', ''stateName'', ''createDate'', ''updateDate'',
      ''links'', ''groupId'', ''replicationSpec'', ''mongoURIUpdated'', ''mongoURIWithOptions'',
      ''srvAddress'', ''mongoDBVersion'', ''numShards'', ''name'', ''mongoDBMajorVersion'',
      ''providerBackupEnabled'', ''pitEnabled'', ''backupEnabled'', ''clusterType'',
      ''replicationFactor'', ''rootCertType'', ''terminationProtectionEnabled'',
      ''versionReleaseSystem'', ''diskWarmingMode'', ''encryptionAtRestProvider'',
      ''globalClusterSelfManagedSharding'', ''labels'', ''biConnector'',
      ''customOpensslCipherConfigTls13'', ''minimumEnabledTlsProtocol'', ''tlsCipherConfigMode'']"

text \<open>Lines 428--437: one region of the mapping form becomes one flat region config.\<close>

definition copied_region_keys :: "string list" where
  "copied_region_keys = [''electableSpecs'', ''analyticsSpecs'', ''readOnlySpecs'', ''autoScaling'']"

definition flatten_region :: "json \<Rightarrow> string \<times> json \<Rightarrow> json result" where
  "flatten_region provider_name item =
     (let region_name = fst item; region_data = snd item
      in bind (py_get region_data ''priority'' (JInt 7)) (\<lambda>priority.
         case region_data of
           JObj region_fields \<Rightarrow>
             Inr (JObj ([(''priority'', priority), (''regionName'', JStr region_name),
                         (''providerName'', provider_name)]
                        @ concat (map (\<lambda>key. case map_of region_fields key of
                                                 Some v \<Rightarrow> [(key, v)]
                                               | None \<Rightarrow> [])
                                    copied_region_keys)))
         | _ \<Rightarrow> Inl AttributeError))"

text \<open>Lines 420--438: the body of the loop over \<^verbatim>\<open>replicationSpecs\<close>. Only a dict
  has \<^verbatim>\<open>pop(key, default)\<close>; a list's \<^verbatim>\<open>pop\<close> takes one argument.\<close>

definition normalize_spec :: "json \<Rightarrow> json \<Rightarrow> json result" where
  "normalize_spec provider_name spec =
     (case spec of
        JObj kvs \<Rightarrow>
          (let kvs1 = AList.delete ''zoneName'' (AList.delete ''numShards'' (AList.delete ''id'' kvs))
           in case map_of kvs1 ''regionsConfig'' of
                Some regions_config_obj \<Rightarrow>
                  (if map_of kvs1 ''regionConfigs'' = None
                   then bind (py_items regions_config_obj) (\<lambda>items.
                        bind (mapM (flatten_region provider_name) items) (\<lambda>region_configs.
                        Inr (JObj (AList.update ''regionConfigs'' (JArr region_configs)
                                     (AList.delete ''regionsConfig'' kvs1)))))
                   else Inr (JObj kvs1))
              | None \<Rightarrow> Inr (JObj kvs1))
      | JArr xs \<Rightarrow> Inl TypeError
      | _ \<Rightarrow> Inl AttributeError)"

text \<open>The loop itself. The list under \<^verbatim>\<open>replicationSpecs\<close> is changed in place; when
  the key is absent the loop runs over the default empty list, and a string or a dict
  is visited by its characters or keys, which the body cannot change.\<close>

definition normalize_specs :: "json \<Rightarrow> (string \<times> json) list \<Rightarrow> (string \<times> json) list result" where
  "normalize_specs provider_name update_payload =
     (case map_of update_payload ''replicationSpecs'' of
        None \<Rightarrow> Inr update_payload
      | Some (JArr specs) \<Rightarrow>
          bind (mapM (normalize_spec provider_name) specs) (\<lambda>specs'.
          Inr (AList.update ''replicationSpecs'' (JArr specs') update_payload))
      | Some other \<Rightarrow>
          bind (py_iter other) (\<lambda>visited.
          bind (mapM (normalize_spec provider_name) visited) (\<lambda>ignored.
          Inr update_payload)))"

text \<open>Lines 454--464 on one region config: \<open>None\<close> when it has no
  \<^verbatim>\<open>electableSpecs\<close> (the loop prints an error and continues). Subscripting works on
  a dict only, and so does assigning into \<^verbatim>\<open>electableSpecs\<close>.\<close>

definition set_electable_specs :: "string \<Rightarrow> int \<Rightarrow> (string \<times> json) list \<Rightarrow> (string \<times> json) list" where
  "set_electable_specs target_tier disk es =
     AList.update ''ebsVolumeType'' (JStr ''STANDARD'')
       (AList.delete ''diskIOPS''
         (AList.update ''diskSizeGB'' (JInt disk)
           (AList.update ''nodeCount'' (JInt DEFAULT_NODE_COUNT)
             (AList.update ''instanceSize'' (JStr target_tier) es))))"

definition apply_tier_change :: "string \<Rightarrow> json \<Rightarrow> json \<Rightarrow> json option result" where
  "apply_tier_change target_tier current_disk_size region_config =
     bind (py_contains ''electableSpecs'' region_config) (\<lambda>present.
     if present
     then (case region_config of
             JObj kvs \<Rightarrow>
               (case map_of kvs ''electableSpecs'' of
                  Some (JObj es) \<Rightarrow>
                    bind (py_int current_disk_size) (\<lambda>disk.
                    Inr (Some (JObj (AList.update ''electableSpecs''
                                       (JObj (set_electable_specs target_tier disk es)) kvs))))
                | _ \<Rightarrow> Inl TypeError)
           | _ \<Rightarrow> Inl TypeError)
     else Inr None)"

text \<open>Lines 441--466: the body of the loop over the pending changes.\<close>

definition update_shard ::
  "string \<Rightarrow> (string \<times> json) list \<Rightarrow> shard_update \<Rightarrow> (string \<times> json) list result" where
  "update_shard target_tier update_payload update =
     (let shard_index = u_shard_index update;
          current_disk_size = u_current_disk_size update
      in bind (py_get (JObj update_payload) ''replicationSpecs'' (JArr [])) (\<lambda>replication_specs.
         bind (if shard_index < 0 then Inr True
               else bind (py_len replication_specs) (\<lambda>n. Inr (shard_index \<ge> n))) (\<lambda>out_of_range.
         if out_of_range then Inr update_payload
         else bind (get_region_config (JObj update_payload) shard_index) (\<lambda>region_config.
              if \<not> truthy region_config then Inr update_payload
              else bind (apply_tier_change target_tier current_disk_size region_config) (\<lambda>changed.
                   case changed of
                     None \<Rightarrow> Inr update_payload
                   | Some region_config' \<Rightarrow>
                       Inr (put_region_config update_payload shard_index region_config'))))))"

text \<open>Lines 391--466: from the document read to the payload before its last check.
  \<open>Inr None\<close> is the \<^verbatim>\<open>return False\<close> of the first count check; \<open>Inl\<close> is an
  exception, which the \<^verbatim>\<open>except Exception\<close> clause of the function catches.\<close>

definition field_or :: "(string \<times> json) list \<Rightarrow> string \<Rightarrow> json \<Rightarrow> json" where
  "field_or d k dflt = (case map_of d k of None \<Rightarrow> dflt | Some v \<Rightarrow> v)"

definition build_update_payload ::
  "json \<Rightarrow> shard_update list \<Rightarrow> string \<Rightarrow> (string \<times> json) list option result" where
  "build_update_payload cluster_info shard_updates target_tier =
     (case cluster_info of
        JObj info \<Rightarrow>
          (let original_replication_specs = field_or info ''replicationSpecs'' (JArr []);
               stripped = fold AList.delete read_only_fields info;
               replication_specs = field_or stripped ''replicationSpecs'' (JArr [])
           in bind (py_len replication_specs) (\<lambda>n.
              bind (py_len original_replication_specs) (\<lambda>n0.
              if n \<noteq> n0 then Inr None
              else bind (py_get (field_or info ''providerSettings'' (JObj [])) ''providerName''
                           (JStr ''AWS'')) (\<lambda>provider_name.
                   bind (normalize_specs provider_name
                           (AList.delete ''diskSizeGB''
                             (AList.delete ''providerSettings''
                               (AList.delete ''autoScaling'' stripped)))) (\<lambda>normalized.
                   bind (foldM (update_shard target_tier) shard_updates normalized) (\<lambda>updated.
                   Inr (Some updated)))))))
      | _ \<Rightarrow> Inl AttributeError)"

text \<open>Lines 468--486: the last count check and the PATCH request. The result is the
  function's return value and the list of payloads submitted; \<open>patch_ok\<close> says whether
  the request for a payload succeeds (\<^verbatim>\<open>raise_for_status\<close> does not raise).\<close>

definition verify_and_patch ::
  "(json \<Rightarrow> bool) \<Rightarrow> json \<Rightarrow> (string \<times> json) list \<Rightarrow> bool \<times> json list" where
  "verify_and_patch patch_ok original_replication_specs update_payload =
     (let final_replication_specs = field_or update_payload ''replicationSpecs'' (JArr [])
      in case bind (py_len final_replication_specs) (\<lambda>n.
              bind (py_len original_replication_specs) (\<lambda>n0. Inr (n \<noteq> n0))) of
           Inl e \<Rightarrow> (False, [])
         | Inr True \<Rightarrow> (False, [])
         | Inr False \<Rightarrow>
             if patch_ok (JObj update_payload) then (True, [JObj update_payload])
             else (False, [JObj update_payload]))"

text \<open>\<^verbatim>\<open>update_cluster_shards\<close> (lines 383--489); \<open>cluster_info\<close> is what
  \<^verbatim>\<open>get_cluster_details\<close> returned to it.\<close>

definition update_cluster_shards ::
  "(json \<Rightarrow> bool) \<Rightarrow> json \<Rightarrow> shard_update list \<Rightarrow> string \<Rightarrow> string \<Rightarrow> bool \<times> json list" where
  "update_cluster_shards patch_ok cluster_info shard_updates target_tier scale_up_tier =
     (if \<not> truthy cluster_info then (False, [])
      else case build_update_payload cluster_info shard_updates target_tier of
             Inl e \<Rightarrow> (False, [])
           | Inr None \<Rightarrow> (False, [])
           | Inr (Some update_payload) \<Rightarrow>
               (case py_get cluster_info ''replicationSpecs'' (JArr []) of
                  Inl e \<Rightarrow> (False, [])
                | Inr original_replication_specs \<Rightarrow>
                    verify_and_patch patch_ok original_replication_specs update_payload))"

section \<open>Timestamp store\<close>

text \<open>
  The configuration file, as the JSON document it holds; \<open>None\<close> is a file that cannot
  be opened or decoded. \<^verbatim>\<open>update_config_timestamp\<close> (lines 491--511) loads the file,
  changes the loaded document in place and writes it back; any exception on the way is
  caught and leaves the file as it was.
\<close>

text \<open>\<^verbatim>\<open>x == i\<close> for a decoded JSON value and an integer.\<close>

fun py_eq_int :: "json \<Rightarrow> int \<Rightarrow> bool" where
  "py_eq_int (JInt n) i = (n = i)"
| "py_eq_int (JFloat r) i = (r = of_int i)"
| "py_eq_int (JBool b) i = ((if b then 1 else 0) = i)"
| "py_eq_int _ i = False"

text \<open>Lines 501--504: the inner loop stops at the first shard with the index.\<close>

fun stamp_first_shard :: "int \<Rightarrow> string \<Rightarrow> json list \<Rightarrow> json list result" where
  "stamp_first_shard shard_index now_iso [] = Inr []"
| "stamp_first_shard shard_index now_iso (shard # rest) =
     bind (py_get shard ''shardIndex'' JNull) (\<lambda>found.
     if py_eq_int found shard_index
     then (case shard of
             JObj kvs \<Rightarrow> Inr (JObj (AList.update ''lastTierUpdate'' (JStr now_iso) kvs) # rest)
           | _ \<Rightarrow> Inl TypeError)
     else bind (stamp_first_shard shard_index now_iso rest) (\<lambda>rest'. Inr (shard # rest')))"

text \<open>Lines 500--504: the body of the outer loop.\<close>

definition stamp_entry :: "string \<Rightarrow> int \<Rightarrow> string \<Rightarrow> json \<Rightarrow> json result" where
  "stamp_entry cluster_name shard_index now_iso entry =
     bind (py_get entry ''clusterName'' JNull) (\<lambda>name.
     if name = JStr cluster_name
     then (case entry of
             JObj kvs \<Rightarrow>
               (case map_of kvs ''shards'' of
                  None \<Rightarrow> Inr entry
                | Some (JArr shards) \<Rightarrow>
                    bind (stamp_first_shard shard_index now_iso shards) (\<lambda>shards'.
                    Inr (JObj (AList.update ''shards'' (JArr shards') kvs)))
                | Some other \<Rightarrow>
                    bind (py_iter other) (\<lambda>visited.
                    bind (stamp_first_shard shard_index now_iso visited) (\<lambda>ignored.
                    Inr entry)))
           | _ \<Rightarrow> Inl AttributeError)
     else Inr entry)"

definition update_config_timestamp ::
  "json option \<Rightarrow> string \<Rightarrow> int \<Rightarrow> string \<Rightarrow> json option" where
  "update_config_timestamp config cluster_name shard_index now_iso =
     (case config of
        None \<Rightarrow> None
      | Some data \<Rightarrow>
          (case (case data of
                   JArr entries \<Rightarrow>
                     bind (mapM (stamp_entry cluster_name shard_index now_iso) entries)
                       (\<lambda>entries'. Inr (JArr entries'))
                 | other \<Rightarrow>
                     bind (py_iter other) (\<lambda>visited.
                     bind (mapM (stamp_entry cluster_name shard_index now_iso) visited)
                       (\<lambda>ignored. Inr other))) of
             Inl e \<Rightarrow> Some data
           | Inr data' \<Rightarrow> Some data'))"

section \<open>Shard decision state machine\<close>

text \<open>
  What the outside world answers during the evaluation of one shard: the cluster document
  of \<^verbatim>\<open>get_cluster_details\<close> (\<open>JNull\<close> when the request fails), the clock readings
  of \<^verbatim>\<open>is_timestamp_very_old\<close>, \<^verbatim>\<open>update_config_timestamp\<close> (as the ISO string it
  writes) and \<^verbatim>\<open>check_time_since_update\<close>, and the results of
  \<^verbatim>\<open>get_cluster_process_for_shard\<close> and \<^verbatim>\<open>get_cluster_metrics\<close>, which depend on
  the process list and the measurements served (either may raise).
\<close>

record observations =
  obs_cluster_details :: json
  obs_now_staleness :: int
  obs_now_iso :: string
  obs_now_dwell :: int
  obs_primary_process :: "json result"
  obs_metrics :: "metrics result"

text \<open>Lines 602--609: the disk size to preserve.\<close>

definition current_disk_size_of :: "json \<Rightarrow> int \<Rightarrow> json result" where
  "current_disk_size_of cluster_info shard_index =
     bind (get_region_config cluster_info shard_index) (\<lambda>region_config.
     if truthy region_config
     then bind (py_get region_config ''effectiveElectableSpecs'' (JObj [])) (\<lambda>effective_specs.
          py_get effective_specs ''diskSizeGB'' (JFloat 80.0))
     else Inr (JFloat 80.0))"

text \<open>
  \<^verbatim>\<open>check_and_scale_down_shard\<close> (lines 513--609). The result is the value returned
  (\<open>None\<close> or a pending change) or the exception that leaves the function, and the
  configuration file afterwards.
\<close>

definition check_and_scale_down_shard ::
  "(string \<Rightarrow> datetime option) \<Rightarrow> observations \<Rightarrow> string \<Rightarrow> int \<Rightarrow> string \<Rightarrow> string \<Rightarrow>
   json \<Rightarrow> int \<Rightarrow> tier_specs \<Rightarrow> json option \<Rightarrow> shard_update option result \<times> json option" where
  "check_and_scale_down_shard fromisoformat obs cluster_name shard_index base_tier scale_up_tier
       last_tier_update min_hours specs config =
     (let cluster_info = obs_cluster_details obs
      in if \<not> truthy cluster_info then (Inr None, config)
      else case check_shard_tier cluster_info shard_index of
        Inl e \<Rightarrow> (Inl e, config)
      | Inr current_tier \<Rightarrow>
      if \<not> truthy current_tier then (Inr None, config)
      else if current_tier = JStr base_tier then (Inr None, config)
      else if current_tier \<noteq> JStr scale_up_tier then (Inr None, config)
      else if specs base_tier = None then (Inr None, config)
      else case check_autoscale_limits cluster_info shard_index base_tier scale_up_tier of
        Inl e \<Rightarrow> (Inl e, config)
      | Inr autoscale \<Rightarrow>
      if \<not> fst autoscale then (Inr None, config)
      else if fst (is_timestamp_very_old fromisoformat (obs_now_staleness obs) last_tier_update
                     NEW_SCALE_UP_THRESHOLD_HOURS)
      then (Inr None, update_config_timestamp config cluster_name shard_index (obs_now_iso obs))
      else if \<not> fst (check_time_since_update fromisoformat (obs_now_dwell obs) last_tier_update
                        min_hours)
      then (Inr None, config)
      else case obs_primary_process obs of
        Inl e \<Rightarrow> (Inl e, config)
      | Inr primary_process \<Rightarrow>
      if \<not> truthy primary_process then (Inr None, config)
      else case obs_metrics obs of
        Inl e \<Rightarrow> (Inl e, config)
      | Inr m \<Rightarrow>
      if \<not> fst (check_safety_conditions base_tier scale_up_tier m specs) then (Inr None, config)
      else case current_disk_size_of cluster_info shard_index of
        Inl e \<Rightarrow> (Inl e, config)
      | Inr current_disk_size \<Rightarrow>
          (Inr (Some \<lparr>u_shard_index = shard_index, u_current_disk_size = current_disk_size\<rparr>),
           config))"

section \<open>Monitoring one cluster\<close>






section \<open>What the properties observe\<close>

text \<open>The definitions of this section are not functions of the program: they name what
  the statements below read off a document or an input.\<close>

text \<open>The one-letter class prefixes the conversion strips: \<^verbatim>\<open>M\<close> and \<^verbatim>\<open>R\<close>
  in either case (the test is made on the upper-cased string).\<close>

definition class_prefix :: "char \<Rightarrow> bool" where
  "class_prefix c = (c = CHR ''M'' \<or> c = CHR ''m'' \<or> c = CHR ''R'' \<or> c = CHR ''r'')"

text \<open>One hour in microseconds, the unit of \<open>timedelta\<close>.\<close>

definition hour_us :: int where
  "hour_us = 3600 * 1000000"

text \<open>The entries of \<^verbatim>\<open>replicationSpecs\<close> of a document, and one field of a JSON
  object.\<close>

definition replication_specs_of :: "(string \<times> json) list \<Rightarrow> json list" where
  "replication_specs_of document =
     (case map_of document ''replicationSpecs'' of Some (JArr specs) \<Rightarrow> specs | _ \<Rightarrow> [])"

definition object_field :: "string \<Rightarrow> json \<Rightarrow> json option" where
  "object_field k rc = (case rc of JObj kvs \<Rightarrow> map_of kvs k | _ \<Rightarrow> None)"

text \<open>The \<^verbatim>\<open>autoScaling\<close> entries of all region configs of one shard: those of the
  \<^verbatim>\<open>regionConfigs\<close> list, then those of the \<^verbatim>\<open>regionsConfig\<close> mapping.\<close>

definition region_autoscaling :: "json \<Rightarrow> json option list" where
  "region_autoscaling spec =
     (case spec of
        JObj kvs \<Rightarrow>
          (case map_of kvs ''regionConfigs'' of
             Some (JArr rcs) \<Rightarrow> map (object_field ''autoScaling'') rcs
           | _ \<Rightarrow> [])
          @ (case map_of kvs ''regionsConfig'' of
               Some (JObj regions) \<Rightarrow> map (\<lambda>kv. object_field ''autoScaling'' (snd kv)) regions
             | _ \<Rightarrow> [])
      | _ \<Rightarrow> [])"

text \<open>The five keys a tier change writes, a region config without them, and a shard
  whose first region config is without them: two shards are equal up to a tier change
  when erasing the five keys makes them equal.\<close>

definition tier_change_keys :: "string list" where
  "tier_change_keys =
     [''instanceSize'', ''nodeCount'', ''diskSizeGB'', ''diskIOPS'', ''ebsVolumeType'']"

definition erase_electable :: "json \<Rightarrow> json" where
  "erase_electable rc =
     (case rc of
        JObj kvs \<Rightarrow>
          (case map_of kvs ''electableSpecs'' of
             Some (JObj es) \<Rightarrow>
               JObj (AList.update ''electableSpecs''
                       (JObj (fold AList.delete tier_change_keys es)) kvs)
           | _ \<Rightarrow> rc)
      | _ \<Rightarrow> rc)"

definition erase_spec :: "json \<Rightarrow> json" where
  "erase_spec spec =
     (case spec_region_config spec of
        Inr (JObj rc) \<Rightarrow> spec_put_region_config spec (erase_electable (JObj rc))
      | _ \<Rightarrow> spec)"

text \<open>The shards a list of pending changes names.\<close>

definition targeted :: "shard_update list \<Rightarrow> int set" where
  "targeted shard_updates = u_shard_index ` set shard_updates"

text \<open>The document after all the cluster-level fields have been popped (lines 406--407
  and 415--417).\<close>

definition strip_for_write :: "(string \<times> json) list \<Rightarrow> (string \<times> json) list" where
  "strip_for_write info =
     AList.delete ''diskSizeGB'' (AList.delete ''providerSettings''
       (AList.delete ''autoScaling'' (fold AList.delete read_only_fields info)))"

text \<open>The cluster document gives no disk size for a shard: the shard has no region
  config, or the \<^verbatim>\<open>effectiveElectableSpecs\<close> of its region config has no
  \<^verbatim>\<open>diskSizeGB\<close>.\<close>

definition disk_size_absent :: "json \<Rightarrow> int \<Rightarrow> bool" where
  "disk_size_absent cluster_info shard_index =
     (case get_region_config cluster_info shard_index of
        Inl e \<Rightarrow> False
      | Inr region_config \<Rightarrow>
          \<not> truthy region_config
          \<or> (case py_get region_config ''effectiveElectableSpecs'' (JObj []) of
                Inr (JObj effective_specs) \<Rightarrow> map_of effective_specs ''diskSizeGB'' = None
              | _ \<Rightarrow> False))"

text \<open>The \<^verbatim>\<open>diskSizeGB\<close> a payload holds for a shard, read the way the builder
  reaches it.\<close>

definition written_disk_size :: "(string \<times> json) list \<Rightarrow> int \<Rightarrow> json result" where
  "written_disk_size payload shard_index =
     bind (get_region_config (JObj payload) shard_index) (\<lambda>region_config.
     bind (py_get region_config ''electableSpecs'' JNull) (\<lambda>electable_specs.
     py_get electable_specs ''diskSizeGB'' JNull))"





section \<open>Example inputs\<close>

text \<open>Two tier tables: one with every limit positive, one whose scale-up tier has no
  usable RAM figure.\<close>

definition example_specs :: tier_specs where
  "example_specs =
     [''M30'' \<mapsto> \<lparr>ram = Some 8, connection = Some 3000, iops = Some 3000\<rparr>,
      ''M40'' \<mapsto> \<lparr>ram = Some 16, connection = Some 6000, iops = Some 3000\<rparr>]"


text \<open>A summary whose memory mean is over the limit, and the same summary with a higher
  CPU mean.\<close>

definition busy_memory :: metrics where
  "busy_memory = default_metrics\<lparr>cpu_avg := 30, memory_avg_gb := 12\<rparr>"

definition busy_memory_cpu :: metrics where
  "busy_memory_cpu = default_metrics\<lparr>cpu_avg := 40, memory_avg_gb := 12\<rparr>"

text \<open>A parser of ISO timestamps that knows a single one, the epoch without a time
  zone.\<close>

definition epoch_iso :: "string \<Rightarrow> datetime option" where
  "epoch_iso s =
     (if s = ''1970-01-01T00:00:00'' then Some \<lparr>wall_us = 0, tzinfo = None\<rparr> else None)"

text \<open>A region config at the scale-up tier, and the same region config after a tier
  change to the base tier with a preserved disk size of 80.5 GB.\<close>

definition example_region :: json where
  "example_region =
     JObj [(''regionName'', JStr ''US_EAST_1''), (''priority'', JInt 7),
           (''electableSpecs'',
              JObj [(''instanceSize'', JStr ''M40''), (''nodeCount'', JInt 3),
                    (''diskIOPS'', JInt 3000)]),
           (''autoScaling'',
              JObj [(''compute'',
                 JObj [(''minInstanceSize'', JStr ''M30''), (''maxInstanceSize'', JStr ''M40'')])])]"

definition example_region_changed :: json where
  "example_region_changed =
     JObj [(''regionName'', JStr ''US_EAST_1''), (''priority'', JInt 7),
           (''electableSpecs'',
              JObj [(''instanceSize'', JStr ''M30''), (''nodeCount'', JInt 3),
                    (''diskSizeGB'', JInt 80), (''ebsVolumeType'', JStr ''STANDARD'')]),
           (''autoScaling'',
              JObj [(''compute'',
                 JObj [(''minInstanceSize'', JStr ''M30''), (''maxInstanceSize'', JStr ''M40'')])])]"

text \<open>A cluster of two shards, the first in the flat form, the second in the mapping
  form; one pending change for the first shard; the payload the builder makes of them,
  and the payload as it is before the pending change is applied.\<close>

definition flat_shard :: json where
  "flat_shard =
     JObj [(''id'', JStr ''shard-a''), (''zoneName'', JStr ''Zone 1''),
           (''regionConfigs'', JArr [example_region])]"

definition mapped_shard :: json where
  "mapped_shard =
     JObj [(''id'', JStr ''shard-b''), (''numShards'', JInt 1),
           (''regionsConfig'',
              JObj [(''US_EAST_1'',
                 JObj [(''priority'', JInt 6),
                       (''electableSpecs'', JObj [(''instanceSize'', JStr ''M40'')]),
                       (''autoScaling'',
                          JObj [(''compute'',
                             JObj [(''minInstanceSize'', JStr ''M30''),
                                   (''maxInstanceSize'', JStr ''M40'')])])])])]"

definition example_cluster :: json where
  "example_cluster =
     JObj [(''name'', JStr ''Cluster0''), (''clusterType'', JStr ''SHARDED''),
           (''providerSettings'', JObj [(''providerName'', JStr ''AWS'')]),
           (''replicationSpecs'', JArr [flat_shard, mapped_shard])]"

definition example_updates :: "shard_update list" where
  "example_updates = [\<lparr>u_shard_index = 0, u_current_disk_size = JFloat 80.5\<rparr>]"

definition example_payload :: "(string \<times> json) list" where
  "example_payload =
     [(''replicationSpecs'',
       JArr [JObj [(''regionConfigs'', JArr [example_region_changed])],
             JObj [(''regionConfigs'',
                JArr [JObj [(''priority'', JInt 6), (''regionName'', JStr ''US_EAST_1''),
                            (''providerName'', JStr ''AWS''),
                            (''electableSpecs'', JObj [(''instanceSize'', JStr ''M40'')]),
                            (''autoScaling'',
                               JObj [(''compute'',
                                  JObj [(''minInstanceSize'', JStr ''M30''),
                                        (''maxInstanceSize'', JStr ''M40'')])])]])]])]"

definition example_normalized :: "(string \<times> json) list" where
  "example_normalized =
     [(''replicationSpecs'',
       JArr [JObj [(''regionConfigs'', JArr [example_region])],
             replication_specs_of example_payload ! 1])]"

text \<open>A one-shard cluster observed at the scale-up tier M40 with no disk size reported,
  a configuration file that records a change at the epoch, the same file with the
  timestamp of thirty hours later, a quiet metric summary, and the observations made
  thirty and ten hours after the recorded change.\<close>

definition observed_region :: json where
  "observed_region =
     JObj [(''regionName'', JStr ''US_EAST_1''), (''priority'', JInt 7),
           (''electableSpecs'',
              JObj [(''instanceSize'', JStr ''M30''), (''nodeCount'', JInt 3)]),
           (''effectiveElectableSpecs'',
              JObj [(''instanceSize'', JStr ''M40''), (''nodeCount'', JInt 3)]),
           (''autoScaling'',
              JObj [(''compute'',
                 JObj [(''minInstanceSize'', JStr ''M30''), (''maxInstanceSize'', JStr ''M40'')])])]"

definition observed_cluster :: json where
  "observed_cluster =
     JObj [(''name'', JStr ''Cluster0''),
           (''replicationSpecs'', JArr [JObj [(''regionConfigs'', JArr [observed_region])]])]"

definition example_config :: json where
  "example_config =
     JArr [JObj [(''clusterName'', JStr ''Cluster0''), (''baseTier'', JStr ''M30''),
                 (''scaleUpTier'', JStr ''M40''),
                 (''shards'',
                    JArr [JObj [(''shardIndex'', JInt 0),
                                (''lastTierUpdate'', JStr ''1970-01-01T00:00:00'')]])]]"


definition quiet_metrics :: metrics where
  "quiet_metrics = default_metrics\<lparr>cpu_avg := 20, memory_avg_gb := 4\<rparr>"


definition timely_observations :: observations where
  "timely_observations =
     \<lparr>obs_cluster_details = observed_cluster, obs_now_staleness = 10 * hour_us,
      obs_now_iso = ''1970-01-01T10:00:00+00:00'', obs_now_dwell = 10 * hour_us,
      obs_primary_process = Inr (JObj [(''id'', JStr ''host:27017'')]),
      obs_metrics = Inr quiet_metrics\<rparr>"

text \<open>The payload of the observed cluster before and after the pending change with the
  default disk size, an outside world in which every PATCH fails, the shard list of the
  configuration record, and the world before the run.\<close>

definition observed_payload :: "(string \<times> json) list" where
  "observed_payload =
     [(''replicationSpecs'', JArr [JObj [(''regionConfigs'', JArr [observed_region])]])]"

definition observed_payload_changed :: "(string \<times> json) list" where
  "observed_payload_changed =
     [(''replicationSpecs'',
       JArr [JObj [(''regionConfigs'',
         JArr [JObj [(''regionName'', JStr ''US_EAST_1''), (''priority'', JInt 7),
                     (''electableSpecs'',
                        JObj [(''instanceSize'', JStr ''M30''), (''nodeCount'', JInt 3),
                              (''diskSizeGB'', JInt 80), (''ebsVolumeType'', JStr ''STANDARD'')]),
                     (''effectiveElectableSpecs'',
                        JObj [(''instanceSize'', JStr ''M40''), (''nodeCount'', JInt 3)]),
                     (''autoScaling'',
                        JObj [(''compute'',
                           JObj [(''minInstanceSize'', JStr ''M30''),
                                 (''maxInstanceSize'', JStr ''M40'')])])]])]])]"

definition default_disk_update :: shard_update where
  "default_disk_update = \<lparr>u_shard_index = 0, u_current_disk_size = JFloat 80\<rparr>"




section \<open>Properties of the tier arithmetic\<close>

lemma py_int_str_error: "py_int_str s = Inl e \<Longrightarrow> e = ValueError"
  by (auto simp: py_int_str_def Let_def split: list.splits option.splits)

lemma upper_char_M: "upper_char c = CHR ''M'' \<longleftrightarrow> c = CHR ''M'' \<or> c = CHR ''m''"
  by (auto simp: upper_char_def)

lemma upper_char_R: "upper_char c = CHR ''R'' \<longleftrightarrow> c = CHR ''R'' \<or> c = CHR ''r''"
  by (auto simp: upper_char_def)

lemma startswith_class_prefix:
  "startswith_any (py_upper s) [''M'', ''R''] \<longleftrightarrow> s \<noteq> [] \<and> class_prefix (hd s)"
proof (cases s)
  case Nil
  then show ?thesis by (simp add: startswith_any_def py_upper_def is_prefix_def)
next
  case (Cons c cs)
  have "startswith_any (py_upper s) [''M'', ''R''] \<longleftrightarrow>
          upper_char c = CHR ''M'' \<or> upper_char c = CHR ''R''"
    using Cons by (auto simp: startswith_any_def py_upper_def is_prefix_def)
  then show ?thesis using Cons
    by (auto simp: class_prefix_def upper_char_M upper_char_R)
qed

lemma set_strip_ws: "set (strip_ws s) \<subseteq> set s"
proof
  fix x assume "x \<in> set (strip_ws s)"
  then have "x \<in> set (dropWhile py_isspace (rev (dropWhile py_isspace s)))"
    by (simp add: strip_ws_def)
  then have "x \<in> set (rev (dropWhile py_isspace s))" by (rule set_dropWhileD)
  then have "x \<in> set (dropWhile py_isspace s)" by simp
  then show "x \<in> set s" by (rule set_dropWhileD)
qed

lemma py_int_str_nonneg:
  assumes "CHR ''-'' \<notin> set s" and "py_int_str s = Inr n"
  shows "0 \<le> n"
proof -
  have "strip_ws s \<noteq> [] \<Longrightarrow> hd (strip_ws s) \<noteq> CHR ''-''"
    using assms(1) set_strip_ws [of s] hd_in_set [of "strip_ws s"] by (metis subsetD)
  then show ?thesis using assms(2)
    by (auto simp: py_int_str_def Let_def split: list.splits option.splits if_splits)
qed

lemma tier_to_number_eq:
  "tier_to_number x =
     Inr (case x of
            JStr s \<Rightarrow>
              (if s = [] then 0
               else case py_int_str (if class_prefix (hd s) then tl s else s) of
                      Inr n \<Rightarrow> n
                    | Inl e \<Rightarrow> 0)
          | _ \<Rightarrow> 0)"
proof (cases x)
  case (JStr s)
  show ?thesis
  proof (cases "s = []")
    case True
    then show ?thesis using JStr by (simp add: tier_to_number_def)
  next
    case False
    let ?t = "if class_prefix (hd s) then tl s else s"
    have "tier_to_number x =
        (case py_int_str ?t of Inr n \<Rightarrow> Inr n
          | Inl e \<Rightarrow> if e = ValueError \<or> e = TypeError then Inr 0 else Inl e)"
      using JStr False by (simp add: tier_to_number_def isinstance_str_def startswith_class_prefix)
    then show ?thesis using JStr False py_int_str_error [of ?t]
      by (cases "py_int_str ?t") auto
  qed
qed (simp_all add: tier_to_number_def isinstance_str_def)

lemma tier_to_number_nonneg:
  assumes "CHR ''-'' \<notin> set s" and "tier_to_number (JStr s) = Inr n"
  shows "0 \<le> n"
proof (cases "s = []")
  case True
  then show ?thesis using assms(2) by (simp add: tier_to_number_def)
next
  case False
  let ?t = "if class_prefix (hd s) then tl s else s"
  have sub: "CHR ''-'' \<notin> set ?t"
    using assms(1) False by (cases s) auto
  show ?thesis
  proof (cases "py_int_str ?t")
    case (Inl e)
    then show ?thesis using assms(2) False by (simp add: tier_to_number_eq)
  next
    case (Inr k)
    then have "n = k" using assms(2) False by (simp add: tier_to_number_eq)
    then show ?thesis using py_int_str_nonneg [OF sub Inr] by simp
  qed
qed

text \<open>
  Claim C6, as the code has it. \<^verbatim>\<open>_tier_to_number\<close> never raises and returns an
  integer for every input: 0 for a value that is not a string and for the empty string;
  for any other string it drops a leading \<^verbatim>\<open>M\<close> or \<^verbatim>\<open>R\<close> (either case),
  parses the rest with \<^verbatim>\<open>int\<close> and returns the parsed integer, or 0 when the parse
  fails. The result is non-negative whenever the string holds no minus sign.
\<close>

theorem tier_to_number_total:
  "tier_to_number x =
     Inr (case x of
            JStr s \<Rightarrow>
              (if s = [] then 0
               else case py_int_str (if class_prefix (hd s) then tl s else s) of
                      Inr n \<Rightarrow> n
                    | Inl e \<Rightarrow> 0)
          | _ \<Rightarrow> 0)
   \<and> (\<forall>s n. x = JStr s \<longrightarrow> CHR ''-'' \<notin> set s \<longrightarrow> tier_to_number x = Inr n \<longrightarrow> 0 \<le> n)"
  using tier_to_number_eq [of x] tier_to_number_nonneg by blast

theorem tier_to_number_total_witness:
  "CHR ''-'' \<notin> set ''M30'' \<and> tier_to_number (JStr ''M30'') = Inr 30 \<and> (0::int) \<le> 30"
  using tier_to_number_total [of "JStr ''M30''"]
  by (simp add: class_prefix_def py_int_str_def strip_ws_def py_isspace_def digit_val_def)

text \<open>The claim as stated fails: a minus sign after the prefix is parsed, and the
  result is negative.\<close>

theorem tier_to_number_negative: "tier_to_number (JStr ''M-30'') = Inr (- 30)"
  by (simp add: tier_to_number_eq class_prefix_def py_int_str_def strip_ws_def
      py_isspace_def digit_val_def)

section \<open>Properties of the safety evaluator\<close>





text \<open>
  Claim C9. \<^verbatim>\<open>check_safety_conditions\<close> is monotone in the metric means: when no
  mean decreases (in particular when one mean increases and the others stay fixed), a
  safe verdict at the higher summary is a safe verdict at the lower one, and every rule
  that gave a reason at the lower summary gives one at the higher summary. A reason
  prints the mean it was triggered by, so reasons are compared by their rule.
\<close>

theorem check_safety_monotone:
  assumes "cpu_avg m \<le> cpu_avg m'" and "memory_avg_gb m \<le> memory_avg_gb m'"
    and "iops_avg m \<le> iops_avg m'" and "connections_avg m \<le> connections_avg m'"
  shows "(fst (check_safety_conditions base_tier current_tier m' specs)
            \<longrightarrow> fst (check_safety_conditions base_tier current_tier m specs))
       \<and> set (map rule_of (snd (check_safety_conditions base_tier current_tier m specs)))
            \<subseteq> set (map rule_of (snd (check_safety_conditions base_tier current_tier m' specs)))"
  using assms by (auto simp: check_safety_conditions_def Let_def)

theorem check_safety_monotone_witness:
  "cpu_avg busy_memory \<le> cpu_avg busy_memory_cpu
   \<and> memory_avg_gb busy_memory \<le> memory_avg_gb busy_memory_cpu
   \<and> iops_avg busy_memory \<le> iops_avg busy_memory_cpu
   \<and> connections_avg busy_memory \<le> connections_avg busy_memory_cpu
   \<and> \<not> fst (check_safety_conditions ''M30'' ''M40'' busy_memory example_specs)
   \<and> \<not> fst (check_safety_conditions ''M30'' ''M40'' busy_memory_cpu example_specs)
   \<and> map rule_of (snd (check_safety_conditions ''M30'' ''M40'' busy_memory example_specs))
        = [MemoryRule]
   \<and> map rule_of (snd (check_safety_conditions ''M30'' ''M40'' busy_memory_cpu example_specs))
        = [CpuRule, MemoryRule]"
  using check_safety_monotone [of busy_memory busy_memory_cpu "''M30''" "''M40''" example_specs]
  by (simp add: busy_memory_def busy_memory_cpu_def default_metrics_def example_specs_def
      check_safety_conditions_def get_or_def Let_def CPU_THRESHOLD_def
      MEMORY_THRESHOLD_PERCENT_def IOPS_THRESHOLD_PERCENT_def CONNECTIONS_THRESHOLD_PERCENT_def)

section \<open>Properties of the staleness gate\<close>





section \<open>Properties of the batch mutation builder\<close>

lemma bind_Inr: "bind m f = Inr y \<longleftrightarrow> (\<exists>x. m = Inr x \<and> f x = Inr y)"
  by (cases m) (simp_all add: bind_def)

lemma bind_simps [simp]: "bind (Inr x) f = f x" "bind (Inl e) f = Inl e"
  by (simp_all add: bind_def)

lemma set_electable_specs_lookup:
  "map_of (set_electable_specs t d es) ''instanceSize'' = Some (JStr t)"
  "map_of (set_electable_specs t d es) ''nodeCount'' = Some (JInt DEFAULT_NODE_COUNT)"
  "map_of (set_electable_specs t d es) ''diskSizeGB'' = Some (JInt d)"
  "map_of (set_electable_specs t d es) ''diskIOPS'' = None"
  "map_of (set_electable_specs t d es) ''ebsVolumeType'' = Some (JStr ''STANDARD'')"
  by (simp_all add: set_electable_specs_def AList.update_conv' AList.delete_conv')

lemma map_of_None_delete: "map_of al k = None \<Longrightarrow> AList.delete k al = al"
  by (rule AList.delete_id) (simp add: map_of_eq_None_iff)

lemma set_electable_specs_idem:
  "set_electable_specs t d (set_electable_specs t d es) = set_electable_specs t d es"
proof -
  let ?es = "set_electable_specs t d es"
  have "set_electable_specs t d ?es =
      AList.update ''ebsVolumeType'' (JStr ''STANDARD'')
       (AList.delete ''diskIOPS''
         (AList.update ''diskSizeGB'' (JInt d)
           (AList.update ''nodeCount'' (JInt DEFAULT_NODE_COUNT)
             (AList.update ''instanceSize'' (JStr t) ?es))))"
    by (simp only: set_electable_specs_def)
  also have "\<dots> = ?es"
    by (simp only: AList.update_triv set_electable_specs_lookup map_of_None_delete)
  finally show ?thesis .
qed

lemma apply_tier_change_SomeD:
  assumes "apply_tier_change target_tier current_disk_size region_config = Inr (Some region_config')"
  obtains kvs es disk where "region_config = JObj kvs"
    and "map_of kvs ''electableSpecs'' = Some (JObj es)"
    and "py_int current_disk_size = Inr disk"
    and "region_config' = JObj (AList.update ''electableSpecs''
                 (JObj (set_electable_specs target_tier disk es)) kvs)"
  using assms
  by (auto simp: apply_tier_change_def bind_Inr split: if_splits json.splits option.splits)

text \<open>
  Claim C8. The tier change of one region config is idempotent: when it yields a region
  config, applying it again with the same target tier and the same preserved disk size
  yields that region config again. The region config it yields has \<^verbatim>\<open>instanceSize\<close>
  the target tier, \<^verbatim>\<open>nodeCount\<close> 3, \<^verbatim>\<open>diskSizeGB\<close> the integer part of the
  preserved size, no \<^verbatim>\<open>diskIOPS\<close> and \<^verbatim>\<open>ebsVolumeType\<close> \<^verbatim>\<open>STANDARD\<close>.
\<close>

theorem apply_tier_change_idempotent:
  assumes "apply_tier_change target_tier current_disk_size region_config = Inr (Some region_config')"
  shows "apply_tier_change target_tier current_disk_size region_config' = Inr (Some region_config')
       \<and> (\<exists>es' disk. py_get region_config' ''electableSpecs'' JNull = Inr (JObj es')
             \<and> py_int current_disk_size = Inr disk
             \<and> map_of es' ''instanceSize'' = Some (JStr target_tier)
             \<and> map_of es' ''nodeCount'' = Some (JInt 3)
             \<and> map_of es' ''diskSizeGB'' = Some (JInt disk)
             \<and> map_of es' ''diskIOPS'' = None
             \<and> map_of es' ''ebsVolumeType'' = Some (JStr ''STANDARD''))"
  using assms
proof (cases rule: apply_tier_change_SomeD)
  case (1 kvs es disk)
  have "apply_tier_change target_tier current_disk_size region_config' = Inr (Some region_config')"
    by (simp add: 1 apply_tier_change_def AList.update_conv' set_electable_specs_idem)
  moreover have "py_get region_config' ''electableSpecs'' JNull
      = Inr (JObj (set_electable_specs target_tier disk es))"
    by (simp add: 1 AList.update_conv')
  ultimately show ?thesis
    using 1(3) set_electable_specs_lookup [of target_tier disk es]
    by (simp add: DEFAULT_NODE_COUNT_def)
qed

lemma trunc_example: "trunc (161 / 2) = 80"
  by (simp add: trunc_def)

theorem apply_tier_change_idempotent_witness:
  "apply_tier_change ''M30'' (JFloat 80.5) example_region = Inr (Some example_region_changed)
   \<and> apply_tier_change ''M30'' (JFloat 80.5) example_region_changed
       = Inr (Some example_region_changed)"
proof -
  have first: "apply_tier_change ''M30'' (JFloat 80.5) example_region = Inr (Some example_region_changed)"
    by (simp add: apply_tier_change_def example_region_def example_region_changed_def
        set_electable_specs_def DEFAULT_NODE_COUNT_def trunc_example)
  from apply_tier_change_idempotent [OF first] first show ?thesis by simp
qed

subsection \<open>Where the region config of a shard lives\<close>

lemma py_index_first: "xs \<noteq> [] \<Longrightarrow> py_index (JArr xs) 0 = Inr (hd xs)"
  by (cases xs) (simp_all add: Let_def)

lemma spec_region_config_JObj:
  "spec_region_config (JObj kvs) =
     (let rcs = field_or kvs ''regionConfigs'' (JArr []);
          probe = field_or kvs ''regionsConfig'' JNull
      in if truthy rcs then py_index rcs 0
         else if truthy probe
              then (case probe of JObj fs \<Rightarrow> Inr (snd (hd fs)) | _ \<Rightarrow> Inl AttributeError)
              else Inr JNull)"
proof -
  let ?rcs = "field_or kvs ''regionConfigs'' (JArr [])"
  let ?probe = "field_or kvs ''regionsConfig'' JNull"
  have get1: "py_get (JObj kvs) ''regionConfigs'' (JArr []) = Inr ?rcs"
    and get2: "py_get (JObj kvs) ''regionsConfig'' JNull = Inr ?probe"
    by (simp_all add: field_or_def)
  show ?thesis
  proof (cases "truthy ?rcs")
    case True
    then show ?thesis
      unfolding spec_region_config_def get1 get2 by (simp add: Let_def)
  next
    case False
    show ?thesis
    proof (cases "truthy ?probe")
      case no: False
      with False show ?thesis
        unfolding spec_region_config_def get1 get2 by (simp add: Let_def)
    next
      case yes: True
      then have get3: "py_get (JObj kvs) ''regionsConfig'' (JObj []) = Inr ?probe"
        by (auto simp: field_or_def split: option.splits)
      have red: "spec_region_config (JObj kvs) =
          bind (bind (py_values ?probe) (\<lambda>vs. bind (py_index (JArr vs) 0) (\<lambda>v. Inr (JArr [v]))))
            (\<lambda>region_configs. if truthy region_configs then py_index region_configs 0
                               else Inr JNull)"
        using False yes unfolding spec_region_config_def get1 get2 get3 by simp
      show ?thesis
        unfolding red using False yes
        by (cases ?probe) (simp_all add: Let_def hd_conv_nth)
    qed
  qed
qed


lemma spec_region_config_not_obj:
  "spec_region_config spec = Inr r \<Longrightarrow> \<exists>kvs. spec = JObj kvs"
  by (cases spec) (simp_all add: spec_region_config_def)

lemma py_index_obj:
  assumes "py_index x 0 = Inr (JObj rc)"
  obtains rs where "x = JArr (JObj rc # rs)"
proof (cases x)
  case (JArr xs)
  with assms have "xs \<noteq> []" "xs ! 0 = JObj rc"
    by (auto simp: Let_def split: if_splits)
  then have "xs = JObj rc # tl xs" by (cases xs) auto
  with JArr that show ?thesis by blast
qed (use assms in \<open>auto simp: Let_def split: if_splits\<close>)

lemma spec_region_config_cases:
  assumes "spec_region_config spec = Inr (JObj rc)"
  obtains (flat) kvs rs where "spec = JObj kvs"
      "map_of kvs ''regionConfigs'' = Some (JArr (JObj rc # rs))"
    | (mapped) kvs name rest where "spec = JObj kvs"
      "\<not> truthy (field_or kvs ''regionConfigs'' (JArr []))"
      "map_of kvs ''regionsConfig'' = Some (JObj ((name, JObj rc) # rest))"
proof -
  from assms obtain kvs where spec: "spec = JObj kvs"
    using spec_region_config_not_obj by blast
  let ?rcs = "field_or kvs ''regionConfigs'' (JArr [])"
  let ?probe = "field_or kvs ''regionsConfig'' JNull"
  note eq = assms [unfolded spec spec_region_config_JObj Let_def]
  show ?thesis
  proof (cases "truthy ?rcs")
    case True
    with eq have "py_index ?rcs 0 = Inr (JObj rc)" by simp
    then obtain rs where "?rcs = JArr (JObj rc # rs)" by (rule py_index_obj)
    then have "map_of kvs ''regionConfigs'' = Some (JArr (JObj rc # rs))"
      by (auto simp: field_or_def split: option.splits)
    with spec show ?thesis by (rule flat)
  next
    case False
    with eq have yes: "truthy ?probe" by (auto split: if_splits)
    with eq False obtain fs where fs: "?probe = JObj fs" "snd (hd fs) = JObj rc"
      by (cases ?probe) auto
    with yes have "fs \<noteq> []" by simp
    with fs obtain name rest where "?probe = JObj ((name, JObj rc) # rest)"
      by (cases fs) auto
    then have "map_of kvs ''regionsConfig'' = Some (JObj ((name, JObj rc) # rest))"
      by (auto simp: field_or_def split: option.splits)
    with spec False show ?thesis by (rule mapped)
  qed
qed

lemma spec_region_config_flat:
  "map_of kvs ''regionConfigs'' = Some (JArr (r # rs)) \<Longrightarrow> spec_region_config (JObj kvs) = Inr r"
  by (simp add: spec_region_config_JObj field_or_def Let_def)

lemma spec_region_config_mapped:
  "\<not> truthy (field_or kvs ''regionConfigs'' (JArr [])) \<Longrightarrow>
   map_of kvs ''regionsConfig'' = Some (JObj ((name, r) # rest)) \<Longrightarrow>
   spec_region_config (JObj kvs) = Inr r"
  by (simp add: spec_region_config_JObj Let_def) (simp add: field_or_def)

lemma spec_put_flat:
  "map_of kvs ''regionConfigs'' = Some (JArr (r # rs)) \<Longrightarrow>
   spec_put_region_config (JObj kvs) rc = JObj (AList.update ''regionConfigs'' (JArr (rc # rs)) kvs)"
  by (simp add: spec_put_region_config_def)

lemma spec_put_mapped:
  assumes "\<not> truthy (field_or kvs ''regionConfigs'' (JArr []))"
    and "map_of kvs ''regionsConfig'' = Some (JObj ((name, r) # rest))"
  shows "spec_put_region_config (JObj kvs) rc =
     JObj (AList.update ''regionsConfig'' (JObj ((name, rc) # rest)) kvs)"
proof (cases "map_of kvs ''regionConfigs''")
  case None
  with assms show ?thesis by (simp add: spec_put_region_config_def)
next
  case (Some other)
  with assms(1) have falsy: "\<not> truthy other" by (simp add: field_or_def)
  then have "\<And>x xs. other \<noteq> JArr (x # xs)" by auto
  with Some falsy assms(2) show ?thesis
    by (cases other; cases "case other of JArr xs \<Rightarrow> xs | _ \<Rightarrow> []")
       (simp_all add: spec_put_region_config_def)
qed

lemma spec_get_put:
  assumes "spec_region_config spec = Inr (JObj rc)"
  shows "spec_region_config (spec_put_region_config spec rc') = Inr rc'"
  using assms
proof (cases rule: spec_region_config_cases)
  case (flat kvs rs)
  have "map_of (AList.update ''regionConfigs'' (JArr (rc' # rs)) kvs) ''regionConfigs''
      = Some (JArr (rc' # rs))"
    by (simp add: AList.update_conv')
  then show ?thesis using flat by (simp add: spec_put_flat spec_region_config_flat)
next
  case (mapped kvs name rest)
  let ?kvs = "AList.update ''regionsConfig'' (JObj ((name, rc') # rest)) kvs"
  have "\<not> truthy (field_or ?kvs ''regionConfigs'' (JArr []))"
    "map_of ?kvs ''regionsConfig'' = Some (JObj ((name, rc') # rest))"
    using mapped by (simp_all add: field_or_def AList.update_conv')
  then have "spec_region_config (JObj ?kvs) = Inr rc'" by (rule spec_region_config_mapped)
  then show ?thesis using mapped by (simp add: spec_put_mapped)
qed

lemma spec_put_put:
  assumes "spec_region_config spec = Inr (JObj rc)"
  shows "spec_put_region_config (spec_put_region_config spec a) b = spec_put_region_config spec b"
  using assms
proof (cases rule: spec_region_config_cases)
  case (flat kvs rs)
  have "map_of (AList.update ''regionConfigs'' (JArr (a # rs)) kvs) ''regionConfigs''
      = Some (JArr (a # rs))"
    by (simp add: AList.update_conv')
  then show ?thesis using flat by (simp add: spec_put_flat)
next
  case (mapped kvs name rest)
  let ?kvs = "AList.update ''regionsConfig'' (JObj ((name, a) # rest)) kvs"
  have "\<not> truthy (field_or ?kvs ''regionConfigs'' (JArr []))"
    "map_of ?kvs ''regionsConfig'' = Some (JObj ((name, a) # rest))"
    using mapped by (simp_all add: field_or_def AList.update_conv')
  then have "spec_put_region_config (JObj ?kvs) b
      = JObj (AList.update ''regionsConfig'' (JObj ((name, b) # rest)) ?kvs)"
    by (rule spec_put_mapped)
  then show ?thesis using mapped by (simp add: spec_put_mapped)
qed

lemma spec_put_get:
  assumes "spec_region_config spec = Inr (JObj rc)"
  shows "spec_put_region_config spec (JObj rc) = spec"
  using assms
proof (cases rule: spec_region_config_cases)
  case (flat kvs rs)
  then show ?thesis by (simp add: spec_put_flat AList.update_triv)
next
  case (mapped kvs name rest)
  then show ?thesis by (simp add: spec_put_mapped AList.update_triv)
qed

lemma get_region_config_JArr:
  assumes "map_of p ''replicationSpecs'' = Some (JArr specs)" and "0 \<le> i" and "nat i < length specs"
  shows "get_region_config (JObj p) i = spec_region_config (specs ! nat i)"
proof -
  from assms(2,3) have "i < int (length specs)" by linarith
  with assms show ?thesis by (simp add: get_region_config_def Let_def)
qed

lemma get_region_config_obj:
  assumes "get_region_config (JObj p) i = Inr (JObj rc)"
  obtains specs where "map_of p ''replicationSpecs'' = Some (JArr specs)" "0 \<le> i"
    "nat i < length specs" "spec_region_config (specs ! nat i) = Inr (JObj rc)"
proof -
  let ?rs = "field_or p ''replicationSpecs'' (JArr [])"
  have get: "py_get (JObj p) ''replicationSpecs'' (JArr []) = Inr ?rs"
    by (simp add: field_or_def)
  note eq = assms [unfolded get_region_config_def get bind_simps]
  from eq have nonneg: "0 \<le> i" by (auto split: if_splits)
  with eq obtain n where n: "py_len ?rs = Inr n" "i < n"
    and idx: "bind (py_index ?rs i) spec_region_config = Inr (JObj rc)"
    by (auto simp: bind_Inr split: if_splits)
  from idx obtain spec where spec: "py_index ?rs i = Inr spec"
    "spec_region_config spec = Inr (JObj rc)"
    by (auto simp: bind_Inr)
  from spec(2) obtain kvs where kvs: "spec = JObj kvs"
    using spec_region_config_not_obj by blast
  show ?thesis
  proof (cases ?rs)
    case (JArr specs)
    with n nonneg have len: "nat i < length specs" by auto
    with JArr spec nonneg have "spec = specs ! nat i" by (auto simp: Let_def split: if_splits)
    moreover from JArr have "map_of p ''replicationSpecs'' = Some (JArr specs)"
      using len by (auto simp: field_or_def split: option.splits)
    ultimately show ?thesis using that nonneg len spec(2) by blast
  qed (use spec(1) kvs n in \<open>auto simp: Let_def split: if_splits\<close>)
qed

lemma apply_tier_change_obj:
  "apply_tier_change t d rc = Inr (Some rc') \<Longrightarrow> \<exists>kvs. rc = JObj kvs"
  by (erule apply_tier_change_SomeD) simp

lemma update_shard_cases:
  assumes "update_shard tier p u = Inr p'"
  obtains (skip) "p' = p"
  | (change) specs rc rc' where "map_of p ''replicationSpecs'' = Some (JArr specs)"
      "0 \<le> u_shard_index u" "nat (u_shard_index u) < length specs"
      "spec_region_config (specs ! nat (u_shard_index u)) = Inr (JObj rc)"
      "apply_tier_change tier (u_current_disk_size u) (JObj rc) = Inr (Some rc')"
      "p' = AList.update ''replicationSpecs''
              (JArr (specs[nat (u_shard_index u) :=
                 spec_put_region_config (specs ! nat (u_shard_index u)) rc'])) p"
proof (cases "p' = p")
  case True
  then show ?thesis by (rule skip)
next
  case False
  let ?i = "u_shard_index u"
  from assms False obtain region_config rc' where
    g: "get_region_config (JObj p) ?i = Inr region_config"
    and a: "apply_tier_change tier (u_current_disk_size u) region_config = Inr (Some rc')"
    and p': "p' = put_region_config p ?i rc'"
    by (auto simp: update_shard_def Let_def bind_Inr split: if_splits option.splits)
  from a obtain rc where rc: "region_config = JObj rc"
    using apply_tier_change_obj by blast
  from g [unfolded rc] obtain specs where specs: "map_of p ''replicationSpecs'' = Some (JArr specs)"
    "0 \<le> ?i" "nat ?i < length specs" "spec_region_config (specs ! nat ?i) = Inr (JObj rc)"
    by (rule get_region_config_obj)
  from p' specs(1) have "p' = AList.update ''replicationSpecs''
              (JArr (specs[nat ?i := spec_put_region_config (specs ! nat ?i) rc'])) p"
    by (simp add: put_region_config_def)
  with specs a [unfolded rc] show ?thesis by (rule change)
qed

subsection \<open>What a tier change leaves alone\<close>

lemma erase_set_electable_specs:
  "fold AList.delete tier_change_keys (set_electable_specs t d es)
     = fold AList.delete tier_change_keys es"
proof -
  have "AList.delete ''ebsVolumeType'' (AList.delete ''diskIOPS'' (AList.delete ''diskSizeGB''
          (AList.delete ''nodeCount'' (AList.delete ''instanceSize''
             (set_electable_specs t d es)))))
      = AList.delete ''ebsVolumeType'' (AList.delete ''diskIOPS'' (AList.delete ''diskSizeGB''
          (AList.delete ''nodeCount'' (AList.delete ''instanceSize'' es))))"
    by (simp add: set_electable_specs_def AList.delete_update AList.delete_update_same
        AList.delete_idem AList.delete_twist [of "''diskIOPS''"])
  then show ?thesis by (simp add: tier_change_keys_def)
qed

lemma apply_tier_change_erase:
  assumes "apply_tier_change t d rc = Inr (Some rc')"
  shows "erase_electable rc' = erase_electable rc"
  using assms
proof (cases rule: apply_tier_change_SomeD)
  case (1 kvs es disk)
  then show ?thesis
    by (simp add: erase_electable_def AList.update_conv' erase_set_electable_specs)
qed

lemma apply_tier_change_field:
  assumes "apply_tier_change t d rc = Inr (Some rc')" and "k \<noteq> ''electableSpecs''"
  shows "object_field k rc' = object_field k rc"
  using assms(1)
proof (cases rule: apply_tier_change_SomeD)
  case (1 kvs es disk)
  then show ?thesis using assms(2) by (simp add: object_field_def AList.update_conv')
qed

lemma apply_tier_change_is_obj:
  assumes "apply_tier_change t d rc = Inr (Some rc')"
  obtains kvs' where "rc' = JObj kvs'"
  using assms by (cases rule: apply_tier_change_SomeD) blast

lemma erase_spec_put:
  assumes get: "spec_region_config spec = Inr (JObj rc)"
    and chg: "apply_tier_change t d (JObj rc) = Inr (Some rc')"
  shows "erase_spec (spec_put_region_config spec rc') = erase_spec spec"
proof -
  from chg obtain kvs' where rc': "rc' = JObj kvs'" by (rule apply_tier_change_is_obj)
  have "spec_region_config (spec_put_region_config spec rc') = Inr (JObj kvs')"
    using spec_get_put [OF get] rc' by simp
  then have "erase_spec (spec_put_region_config spec rc')
      = spec_put_region_config (spec_put_region_config spec rc') (erase_electable rc')"
    by (simp add: erase_spec_def rc')
  also have "\<dots> = spec_put_region_config spec (erase_electable rc')"
    by (rule spec_put_put [OF get])
  also have "\<dots> = spec_put_region_config spec (erase_electable (JObj rc))"
    by (simp only: apply_tier_change_erase [OF chg])
  also have "\<dots> = erase_spec spec" by (simp add: erase_spec_def get)
  finally show ?thesis .
qed

lemma region_autoscaling_put:
  assumes get: "spec_region_config spec = Inr (JObj rc)"
    and same: "object_field ''autoScaling'' rc' = object_field ''autoScaling'' (JObj rc)"
  shows "region_autoscaling (spec_put_region_config spec rc') = region_autoscaling spec"
  using get
proof (cases rule: spec_region_config_cases)
  case (flat kvs rs)
  then show ?thesis using same
    by (simp add: spec_put_flat region_autoscaling_def AList.update_conv')
next
  case (mapped kvs name rest)
  then show ?thesis using same
    by (simp add: spec_put_mapped region_autoscaling_def AList.update_conv')
qed

subsection \<open>One pending change\<close>

lemma foldM_preserves:
  assumes "foldM f xs s = Inr s'"
    and "\<And>a x b. x \<in> set xs \<Longrightarrow> f a x = Inr b \<Longrightarrow> g b = g a"
  shows "g s' = g s"
  using assms
proof (induction xs arbitrary: s)
  case Nil
  then show ?case by simp
next
  case (Cons x xs)
  from Cons.prems(1) obtain m where m: "f s x = Inr m" "foldM f xs m = Inr s'"
    by (auto simp: bind_Inr)
  have "g s' = g m" using m(2) Cons.prems(2) by (intro Cons.IH) auto
  also have "g m = g s" using m(1) Cons.prems(2) by auto
  finally show ?case .
qed

lemma replication_specs_of_update:
  "replication_specs_of (AList.update ''replicationSpecs'' (JArr xs) p) = xs"
  by (simp add: replication_specs_of_def AList.update_conv')

lemma update_shard_rest:
  assumes "update_shard tier p u = Inr p'"
  shows "AList.delete ''replicationSpecs'' p' = AList.delete ''replicationSpecs'' p"
  using assms by (cases rule: update_shard_cases) (simp_all add: AList.delete_update_same)

lemma update_shard_keys:
  assumes "update_shard tier p u = Inr p'"
  shows "map fst p' = map fst p"
  using assms
proof (cases rule: update_shard_cases)
  case (change specs rc rc')
  from change(1) have "''replicationSpecs'' \<in> set (map fst p)"
    by (metis map_of_eq_None_iff option.distinct(1) set_map)
  with change(6) show ?thesis by (simp add: AList.update_keys)
qed simp

lemma update_shard_len:
  assumes "update_shard tier p u = Inr p'"
  shows "py_len (field_or p' ''replicationSpecs'' (JArr []))
       = py_len (field_or p ''replicationSpecs'' (JArr []))"
  using assms
  by (cases rule: update_shard_cases) (simp_all add: field_or_def AList.update_conv')

lemma update_shard_length:
  assumes "update_shard tier p u = Inr p'"
  shows "length (replication_specs_of p') = length (replication_specs_of p)"
  using assms
  by (cases rule: update_shard_cases)
     (simp_all add: replication_specs_of_update, simp add: replication_specs_of_def)

lemma update_shard_erase:
  assumes "update_shard tier p u = Inr p'"
  shows "map erase_spec (replication_specs_of p') = map erase_spec (replication_specs_of p)"
  using assms
proof (cases rule: update_shard_cases)
  case (change specs rc rc')
  let ?i = "nat (u_shard_index u)"
  have "map erase_spec (specs[?i := spec_put_region_config (specs ! ?i) rc'])
      = (map erase_spec specs)[?i := erase_spec (spec_put_region_config (specs ! ?i) rc')]"
    by (simp add: map_update)
  also have "\<dots> = (map erase_spec specs)[?i := erase_spec (specs ! ?i)]"
    by (simp only: erase_spec_put [OF change(4,5)])
  also have "\<dots> = map erase_spec specs"
    using change(3) by (simp add: list_update_same_conv)
  finally show ?thesis
    using change(1,6) by (simp add: replication_specs_of_update) (simp add: replication_specs_of_def)
qed simp

lemma update_shard_autoscaling:
  assumes "update_shard tier p u = Inr p'"
  shows "map region_autoscaling (replication_specs_of p')
       = map region_autoscaling (replication_specs_of p)"
  using assms
proof (cases rule: update_shard_cases)
  case (change specs rc rc')
  let ?i = "nat (u_shard_index u)"
  have same: "object_field ''autoScaling'' rc' = object_field ''autoScaling'' (JObj rc)"
    by (rule apply_tier_change_field [OF change(5)]) simp
  have "map region_autoscaling (specs[?i := spec_put_region_config (specs ! ?i) rc'])
      = (map region_autoscaling specs)
          [?i := region_autoscaling (spec_put_region_config (specs ! ?i) rc')]"
    by (simp add: map_update)
  also have "\<dots> = (map region_autoscaling specs)[?i := region_autoscaling (specs ! ?i)]"
    by (simp only: region_autoscaling_put [OF change(4) same])
  also have "\<dots> = map region_autoscaling specs"
    using change(3) by (simp add: list_update_same_conv)
  finally show ?thesis
    using change(1,6) by (simp add: replication_specs_of_update) (simp add: replication_specs_of_def)
qed simp

lemma update_shard_other:
  assumes "update_shard tier p u = Inr p'" and "int j \<noteq> u_shard_index u"
  shows "replication_specs_of p' ! j = replication_specs_of p ! j"
  using assms(1)
proof (cases rule: update_shard_cases)
  case (change specs rc rc')
  from change(2) assms(2) have "nat (u_shard_index u) \<noteq> j" by auto
  with change(1,6) show ?thesis
    by (simp add: replication_specs_of_update) (simp add: replication_specs_of_def)
qed simp

subsection \<open>Normalisation\<close>

lemma mapM_length: "mapM f xs = Inr ys \<Longrightarrow> length ys = length xs"
  by (induction xs arbitrary: ys) (auto simp: bind_Inr)

lemma mapM_nth: "mapM f xs = Inr ys \<Longrightarrow> i < length xs \<Longrightarrow> f (xs ! i) = Inr (ys ! i)"
proof (induction xs arbitrary: ys i)
  case Nil
  then show ?case by simp
next
  case (Cons x xs)
  then show ?case by (cases i) (auto simp: bind_Inr)
qed

lemma mapM_map:
  assumes "mapM f xs = Inr ys" and "\<And>x y. f x = Inr y \<Longrightarrow> g y = h x"
  shows "map g ys = map h xs"
  using assms by (induction xs arbitrary: ys) (auto simp: bind_Inr)

lemma flatten_region_autoscaling:
  assumes "flatten_region provider item = Inr rc"
  shows "object_field ''autoScaling'' rc = object_field ''autoScaling'' (snd item)"
proof -
  from assms obtain fs where "snd item = JObj fs" 
    by (cases "snd item") (auto simp: flatten_region_def Let_def)
  with assms show ?thesis
    by (auto simp: flatten_region_def Let_def object_field_def copied_region_keys_def
        split: option.splits)
qed

lemma normalize_spec_autoscaling:
  assumes "normalize_spec provider spec = Inr spec'"
  shows "region_autoscaling spec' = region_autoscaling spec"
proof -
  from assms obtain kvs where spec: "spec = JObj kvs"
    by (cases spec) (auto simp: normalize_spec_def)
  let ?kvs1 = "AList.delete ''zoneName'' (AList.delete ''numShards'' (AList.delete ''id'' kvs))"
  have keep: "map_of ?kvs1 ''regionConfigs'' = map_of kvs ''regionConfigs''"
    "map_of ?kvs1 ''regionsConfig'' = map_of kvs ''regionsConfig''"
    by (simp_all add: AList.delete_conv')
  have same1: "region_autoscaling (JObj ?kvs1) = region_autoscaling spec"
    by (simp add: region_autoscaling_def spec keep)
  show ?thesis
  proof (cases "map_of kvs ''regionsConfig'' \<noteq> None \<and> map_of kvs ''regionConfigs'' = None")
    case False
    with assms have "spec' = JObj ?kvs1"
      by (auto simp: normalize_spec_def spec keep Let_def split: option.splits)
    with same1 show ?thesis by simp
  next
    case True
    then obtain obj where obj: "map_of kvs ''regionsConfig'' = Some obj"
      and none: "map_of kvs ''regionConfigs'' = None" by auto
    with assms obtain items rcs where items: "py_items obj = Inr items"
      and rcs: "mapM (flatten_region provider) items = Inr rcs"
      and spec': "spec' = JObj (AList.update ''regionConfigs'' (JArr rcs)
                                 (AList.delete ''regionsConfig'' ?kvs1))"
      by (auto simp: normalize_spec_def spec keep Let_def bind_Inr)
    from items have obj_eq: "obj = JObj items" by (cases obj) auto
    have "map (object_field ''autoScaling'') rcs
        = map (\<lambda>kv. object_field ''autoScaling'' (snd kv)) items"
      using rcs by (rule mapM_map) (rule flatten_region_autoscaling)
    then show ?thesis
      by (simp add: spec' spec region_autoscaling_def AList.update_conv' AList.delete_conv'
          obj none obj_eq)
  qed
qed

lemma map_of_fold_delete:
  "k \<notin> set ks \<Longrightarrow> map_of (fold AList.delete ks al) k = map_of al k"
  by (induction ks arbitrary: al) (auto simp: AList.delete_conv')

lemma normalize_specs_cases:
  assumes "normalize_specs provider p = Inr p'"
  obtains (same) "p' = p" "replication_specs_of p = []"
  | (list) specs specs' where "map_of p ''replicationSpecs'' = Some (JArr specs)"
      "mapM (normalize_spec provider) specs = Inr specs'"
      "p' = AList.update ''replicationSpecs'' (JArr specs') p"
proof (cases "map_of p ''replicationSpecs''")
  case None
  with assms have "p' = p" by (simp add: normalize_specs_def)
  moreover from None have "replication_specs_of p = []" by (simp add: replication_specs_of_def)
  ultimately show ?thesis by (rule same)
next
  case (Some other)
  show ?thesis
  proof (cases other)
    case (JArr specs)
    with Some assms obtain specs' where "mapM (normalize_spec provider) specs = Inr specs'"
      "p' = AList.update ''replicationSpecs'' (JArr specs') p"
      by (auto simp: normalize_specs_def bind_Inr)
    with Some JArr show ?thesis by (auto intro: list)
  qed (use Some assms in \<open>auto simp: normalize_specs_def bind_Inr replication_specs_of_def intro: same\<close>)
qed

subsection \<open>The whole payload\<close>

lemma not_read_only: "''replicationSpecs'' \<notin> set read_only_fields"
  by code_simp

lemma strip_keeps_specs:
  "map_of (strip_for_write info) ''replicationSpecs'' = map_of info ''replicationSpecs''"
  by (simp add: strip_for_write_def AList.delete_conv' map_of_fold_delete [OF not_read_only])

lemma read_only_keeps_specs:
  "map_of (fold AList.delete read_only_fields info) ''replicationSpecs''
     = map_of info ''replicationSpecs''"
  by (rule map_of_fold_delete [OF not_read_only])

lemma build_update_payload_cases:
  assumes "build_update_payload cluster_info shard_updates target_tier = Inr (Some payload)"
  obtains info provider normalized where "cluster_info = JObj info"
    "py_get (field_or info ''providerSettings'' (JObj [])) ''providerName'' (JStr ''AWS'') = Inr provider"
    "normalize_specs provider (strip_for_write info) = Inr normalized"
    "foldM (update_shard target_tier) shard_updates normalized = Inr payload"
proof -
  from assms obtain info where info: "cluster_info = JObj info"
    by (cases cluster_info) (auto simp: build_update_payload_def)
  from assms [unfolded info] show ?thesis
    by (auto simp: build_update_payload_def Let_def bind_Inr strip_for_write_def info
        split: if_splits intro: that)
qed

lemma normalize_specs_len:
  assumes "normalize_specs provider p = Inr p'"
  shows "py_len (field_or p' ''replicationSpecs'' (JArr []))
       = py_len (field_or p ''replicationSpecs'' (JArr []))"
  using assms
proof (cases rule: normalize_specs_cases)
  case (list specs specs')
  from list(2) have "length specs' = length specs" by (rule mapM_length)
  with list show ?thesis by (simp add: field_or_def AList.update_conv')
qed simp

lemma normalize_specs_nth:
  assumes "normalize_specs provider p = Inr p'" and "i < length (replication_specs_of p)"
  shows "normalize_spec provider (replication_specs_of p ! i) = Inr (replication_specs_of p' ! i)"
  using assms(1)
proof (cases rule: normalize_specs_cases)
  case same
  with assms(2) show ?thesis by simp
next
  case (list specs specs')
  from list(1) have "replication_specs_of p = specs" by (simp add: replication_specs_of_def)
  with list assms(2) show ?thesis by (simp add: replication_specs_of_update mapM_nth)
qed

lemma normalize_specs_length:
  assumes "normalize_specs provider p = Inr p'"
  shows "length (replication_specs_of p') = length (replication_specs_of p)"
  using assms
proof (cases rule: normalize_specs_cases)
  case (list specs specs')
  from list(1) have "replication_specs_of p = specs" by (simp add: replication_specs_of_def)
  with list show ?thesis by (simp add: replication_specs_of_update mapM_length)
qed simp

lemma normalize_specs_autoscaling:
  assumes "normalize_specs provider p = Inr p'"
  shows "map region_autoscaling (replication_specs_of p')
       = map region_autoscaling (replication_specs_of p)"
  using assms
proof (cases rule: normalize_specs_cases)
  case (list specs specs')
  from list(1) have "replication_specs_of p = specs" by (simp add: replication_specs_of_def)
  moreover have "map region_autoscaling specs' = map region_autoscaling specs"
    using list(2) by (rule mapM_map) (rule normalize_spec_autoscaling)
  ultimately show ?thesis using list(3) by (simp add: replication_specs_of_update)
qed simp

lemma update_loop_len:
  assumes "foldM (update_shard tier) ups p = Inr p'"
  shows "py_len (field_or p' ''replicationSpecs'' (JArr []))
       = py_len (field_or p ''replicationSpecs'' (JArr []))"
  using assms by (rule foldM_preserves) (rule update_shard_len)

lemma update_loop_length:
  assumes "foldM (update_shard tier) ups p = Inr p'"
  shows "length (replication_specs_of p') = length (replication_specs_of p)"
  using assms by (rule foldM_preserves) (rule update_shard_length)

lemma update_loop_erase:
  assumes "foldM (update_shard tier) ups p = Inr p'"
  shows "map erase_spec (replication_specs_of p') = map erase_spec (replication_specs_of p)"
  using assms by (rule foldM_preserves) (rule update_shard_erase)

lemma update_loop_autoscaling:
  assumes "foldM (update_shard tier) ups p = Inr p'"
  shows "map region_autoscaling (replication_specs_of p')
       = map region_autoscaling (replication_specs_of p)"
  using assms by (rule foldM_preserves) (rule update_shard_autoscaling)

lemma update_loop_rest:
  assumes "foldM (update_shard tier) ups p = Inr p'"
  shows "AList.delete ''replicationSpecs'' p' = AList.delete ''replicationSpecs'' p"
  using assms by (rule foldM_preserves) (rule update_shard_rest)

lemma update_loop_other:
  assumes "foldM (update_shard tier) ups p = Inr p'" and "int j \<notin> targeted ups"
  shows "replication_specs_of p' ! j = replication_specs_of p ! j"
  using assms(1)
proof (rule foldM_preserves)
  fix a x b assume "x \<in> set ups" and step: "update_shard tier a x = Inr b"
  with assms(2) have "int j \<noteq> u_shard_index x" by (auto simp: targeted_def)
  with step show "replication_specs_of b ! j = replication_specs_of a ! j"
    by (rule update_shard_other)
qed

subsection \<open>Shard count, order and frame\<close>

lemma example_build:
  "build_update_payload example_cluster example_updates ''M30'' = Inr (Some example_payload)"
  by code_simp


lemma verify_and_patch_mismatch:
  assumes "py_len (field_or update_payload ''replicationSpecs'' (JArr []))
             \<noteq> py_len original_replication_specs"
  shows "verify_and_patch patch_ok original_replication_specs update_payload = (False, [])"
proof (cases "py_len (field_or update_payload ''replicationSpecs'' (JArr []))")
  case (Inl e)
  then show ?thesis by (simp add: verify_and_patch_def)
next
  case n: (Inr n)
  show ?thesis
  proof (cases "py_len original_replication_specs")
    case (Inl e)
    with n show ?thesis by (simp add: verify_and_patch_def)
  next
    case (Inr n0)
    with n assms have "n \<noteq> n0" by auto
    with n Inr show ?thesis by (simp add: verify_and_patch_def)
  qed
qed

lemma verify_and_patch_sent:
  "snd (verify_and_patch patch_ok original update_payload) = []
   \<or> snd (verify_and_patch patch_ok original update_payload) = [JObj update_payload]"
  by (auto simp: verify_and_patch_def Let_def split: sum.splits bool.splits)

lemma update_cluster_shards_sent:
  "snd (update_cluster_shards patch_ok cluster_info shard_updates target_tier scale_up_tier) = []
   \<or> (\<exists>payload. build_update_payload cluster_info shard_updates target_tier = Inr (Some payload)
        \<and> snd (update_cluster_shards patch_ok cluster_info shard_updates target_tier scale_up_tier)
            = [JObj payload])"
proof (cases "build_update_payload cluster_info shard_updates target_tier")
  case (Inl e)
  then show ?thesis by (simp add: update_cluster_shards_def)
next
  case (Inr built)
  show ?thesis
  proof (cases built)
    case None
    with Inr show ?thesis by (simp add: update_cluster_shards_def)
  next
    case (Some payload)
    show ?thesis
    proof (cases "py_get cluster_info ''replicationSpecs'' (JArr [])")
      case (Inl e)
      with Inr Some show ?thesis by (simp add: update_cluster_shards_def)
    next
      case orig: (Inr original)
      from verify_and_patch_sent [of patch_ok original payload] Inr Some orig
      show ?thesis by (auto simp: update_cluster_shards_def)
    qed
  qed
qed

lemma build_keeps_shards:
  assumes "build_update_payload cluster_info shard_updates target_tier = Inr (Some payload)"
  shows "\<exists>info provider. cluster_info = JObj info
      \<and> py_len (field_or payload ''replicationSpecs'' (JArr []))
          = py_len (field_or info ''replicationSpecs'' (JArr []))
      \<and> length (replication_specs_of payload) = length (replication_specs_of info)
      \<and> (\<forall>i < length (replication_specs_of info). \<exists>normalized.
             normalize_spec provider (replication_specs_of info ! i) = Inr normalized
           \<and> erase_spec (replication_specs_of payload ! i) = erase_spec normalized
           \<and> (int i \<notin> targeted shard_updates \<longrightarrow> replication_specs_of payload ! i = normalized))"
  using assms
proof (cases rule: build_update_payload_cases)
  case (1 info provider normalized)
  let ?s = "strip_for_write info"
  have field: "field_or ?s ''replicationSpecs'' (JArr []) = field_or info ''replicationSpecs'' (JArr [])"
    and rso: "replication_specs_of ?s = replication_specs_of info"
    by (simp_all add: field_or_def replication_specs_of_def strip_keeps_specs)
  have len: "py_len (field_or payload ''replicationSpecs'' (JArr []))
          = py_len (field_or info ''replicationSpecs'' (JArr []))"
    using update_loop_len [OF 1(4)] normalize_specs_len [OF 1(3)] field by simp
  have length: "length (replication_specs_of payload) = length (replication_specs_of info)"
    using update_loop_length [OF 1(4)] normalize_specs_length [OF 1(3)] rso by simp
  have each: "\<exists>n. normalize_spec provider (replication_specs_of info ! i) = Inr n
           \<and> erase_spec (replication_specs_of payload ! i) = erase_spec n
           \<and> (int i \<notin> targeted shard_updates \<longrightarrow> replication_specs_of payload ! i = n)"
    if i: "i < length (replication_specs_of info)" for i
  proof -
    let ?n = "replication_specs_of normalized ! i"
    have a: "normalize_spec provider (replication_specs_of info ! i) = Inr ?n"
      using normalize_specs_nth [OF 1(3), of i] i rso by simp
    have "i < length (replication_specs_of normalized)"
      using i normalize_specs_length [OF 1(3)] rso by simp
    then have b: "erase_spec (replication_specs_of payload ! i) = erase_spec ?n"
      using update_loop_erase [OF 1(4)] update_loop_length [OF 1(4)]
      by (metis nth_map)
    have c: "int i \<notin> targeted shard_updates \<longrightarrow> replication_specs_of payload ! i = ?n"
      using update_loop_other [OF 1(4)] by simp
    from a b c show ?thesis by blast
  qed
  from 1(1) len length each show ?thesis by blast
qed

text \<open>
  Claim C1. Whenever \<^verbatim>\<open>update_cluster_shards\<close> builds a payload, its
  \<^verbatim>\<open>replicationSpecs\<close> has the length of the one read, and entry \<open>i\<close> of the payload is
  the normalised entry \<open>i\<close> of the document read (identical to it for a shard no pending
  change names, equal to it up to the five keys of a tier change otherwise), whether the
  entry was in the flat or the mapping form. A PATCH request, if one is sent, carries the
  payload built. When the last count check finds two different lengths the function
  returns failure and sends nothing.
\<close>

theorem payload_keeps_shards:
  "(build_update_payload cluster_info shard_updates target_tier = Inr (Some payload) \<longrightarrow>
      (\<exists>info provider. cluster_info = JObj info
        \<and> py_len (field_or payload ''replicationSpecs'' (JArr []))
            = py_len (field_or info ''replicationSpecs'' (JArr []))
        \<and> length (replication_specs_of payload) = length (replication_specs_of info)
        \<and> (\<forall>i < length (replication_specs_of info). \<exists>normalized.
               normalize_spec provider (replication_specs_of info ! i) = Inr normalized
             \<and> erase_spec (replication_specs_of payload ! i) = erase_spec normalized
             \<and> (int i \<notin> targeted shard_updates
                  \<longrightarrow> replication_specs_of payload ! i = normalized))))
   \<and> (snd (update_cluster_shards patch_ok cluster_info shard_updates target_tier scale_up_tier) = []
        \<or> (\<exists>built. build_update_payload cluster_info shard_updates target_tier = Inr (Some built)
             \<and> snd (update_cluster_shards patch_ok cluster_info shard_updates target_tier
                      scale_up_tier) = [JObj built]))
   \<and> (py_len (field_or update_payload ''replicationSpecs'' (JArr []))
          \<noteq> py_len original_replication_specs \<longrightarrow>
        verify_and_patch patch_ok original_replication_specs update_payload = (False, []))"
  using build_keeps_shards update_cluster_shards_sent verify_and_patch_mismatch
  by blast


theorem payload_keeps_shards_witness:
  "build_update_payload example_cluster example_updates ''M30'' = Inr (Some example_payload)
   \<and> length (replication_specs_of example_payload) = 2
   \<and> py_len (field_or example_payload ''replicationSpecs'' (JArr [])) \<noteq> py_len (JArr [flat_shard])
   \<and> verify_and_patch (\<lambda>p. True) (JArr [flat_shard]) example_payload = (False, [])"
proof -
  have len: "length (replication_specs_of example_payload) = 2"
    by (simp add: replication_specs_of_def example_payload_def)
  have differ: "py_len (field_or example_payload ''replicationSpecs'' (JArr []))
      \<noteq> py_len (JArr [flat_shard])"
    by (simp add: field_or_def example_payload_def)
  from payload_keeps_shards [where cluster_info = example_cluster
      and shard_updates = example_updates and target_tier = "''M30''"
      and payload = example_payload and update_payload = example_payload
      and original_replication_specs = "JArr [flat_shard]" and patch_ok = "\<lambda>p. True"]
    example_build len differ
  show ?thesis by blast
qed

lemma update_loop_keys:
  assumes "foldM (update_shard tier) ups p = Inr p'"
  shows "map fst p' = map fst p"
  using assms by (rule foldM_preserves) (rule update_shard_keys)

lemma build_keeps_autoscaling:
  assumes "build_update_payload cluster_info shard_updates target_tier = Inr (Some payload)"
  shows "\<exists>info. cluster_info = JObj info
      \<and> map region_autoscaling (replication_specs_of payload)
          = map region_autoscaling (replication_specs_of info)"
  using assms
proof (cases rule: build_update_payload_cases)
  case (1 info provider normalized)
  have "replication_specs_of (strip_for_write info) = replication_specs_of info"
    by (simp add: replication_specs_of_def strip_keeps_specs)
  with update_loop_autoscaling [OF 1(4)] normalize_specs_autoscaling [OF 1(3)] 1(1)
  show ?thesis by simp
qed

text \<open>
  Claim C2. The payload built has, shard by shard and region by region, the
  \<^verbatim>\<open>autoScaling\<close> entries of the document read. The loop over the pending changes
  leaves the rest of the payload, the number of shards and every shard that no pending
  change names as they were, and changes a shard at most in the five keys
  \<^verbatim>\<open>instanceSize\<close>, \<^verbatim>\<open>nodeCount\<close>, \<^verbatim>\<open>diskSizeGB\<close>, \<^verbatim>\<open>diskIOPS\<close> and
  \<^verbatim>\<open>ebsVolumeType\<close> of the \<^verbatim>\<open>electableSpecs\<close> of its first region config.
\<close>

theorem tier_change_frame:
  "(build_update_payload cluster_info shard_updates target_tier = Inr (Some payload) \<longrightarrow>
      (\<exists>info. cluster_info = JObj info
        \<and> map region_autoscaling (replication_specs_of payload)
            = map region_autoscaling (replication_specs_of info)))
   \<and> (foldM (update_shard target_tier) shard_updates p = Inr p' \<longrightarrow>
        AList.delete ''replicationSpecs'' p' = AList.delete ''replicationSpecs'' p
      \<and> map fst p' = map fst p
      \<and> length (replication_specs_of p') = length (replication_specs_of p)
      \<and> map region_autoscaling (replication_specs_of p')
          = map region_autoscaling (replication_specs_of p)
      \<and> map erase_spec (replication_specs_of p') = map erase_spec (replication_specs_of p)
      \<and> (\<forall>j. int j \<notin> targeted shard_updates
            \<longrightarrow> replication_specs_of p' ! j = replication_specs_of p ! j))"
proof (intro conjI impI allI)
  assume "build_update_payload cluster_info shard_updates target_tier = Inr (Some payload)"
  then show "\<exists>info. cluster_info = JObj info
        \<and> map region_autoscaling (replication_specs_of payload)
            = map region_autoscaling (replication_specs_of info)"
    by (rule build_keeps_autoscaling)
next
  assume loop: "foldM (update_shard target_tier) shard_updates p = Inr p'"
  show "AList.delete ''replicationSpecs'' p' = AList.delete ''replicationSpecs'' p"
    using loop by (rule update_loop_rest)
  show "map fst p' = map fst p"
    using loop by (rule update_loop_keys)
  show "length (replication_specs_of p') = length (replication_specs_of p)"
    using loop by (rule update_loop_length)
  show "map region_autoscaling (replication_specs_of p')
          = map region_autoscaling (replication_specs_of p)"
    using loop by (rule update_loop_autoscaling)
  show "map erase_spec (replication_specs_of p') = map erase_spec (replication_specs_of p)"
    using loop by (rule update_loop_erase)
  show "replication_specs_of p' ! j = replication_specs_of p ! j"
    if "int j \<notin> targeted shard_updates" for j
    using loop that by (rule update_loop_other)
qed

lemma example_loop:
  "foldM (update_shard ''M30'') example_updates example_normalized = Inr example_payload"
  by code_simp

theorem tier_change_frame_witness:
  "build_update_payload example_cluster example_updates ''M30'' = Inr (Some example_payload)
   \<and> foldM (update_shard ''M30'') example_updates example_normalized = Inr example_payload
   \<and> int 1 \<notin> targeted example_updates
   \<and> replication_specs_of example_payload ! 1 = replication_specs_of example_normalized ! 1
   \<and> replication_specs_of example_payload ! 0 \<noteq> replication_specs_of example_normalized ! 0
   \<and> map region_autoscaling (replication_specs_of example_payload)
       = map region_autoscaling (replication_specs_of example_normalized)"
proof -
  have untargeted: "int 1 \<notin> targeted example_updates"
    by (simp add: targeted_def example_updates_def)
  have changed: "replication_specs_of example_payload ! 0 \<noteq> replication_specs_of example_normalized ! 0"
    by (simp add: replication_specs_of_def example_payload_def example_normalized_def
        example_region_def example_region_changed_def)
  from tier_change_frame [where cluster_info = example_cluster
      and shard_updates = example_updates and target_tier = "''M30''"
      and payload = example_payload and p = example_normalized and p' = example_payload]
    example_build example_loop untargeted changed
  show ?thesis by blast
qed

section \<open>Properties of the shard decision state machine\<close>









subsection \<open>The preserved disk size\<close>

lemma check_and_scale_down_shard_SomeD:
  assumes "check_and_scale_down_shard fromiso obs cluster_name shard_index base_tier scale_up_tier
             last_tier_update min_hours specs config = (Inr (Some u), config')"
  shows "config' = config"
    and "\<exists>d. current_disk_size_of (obs_cluster_details obs) shard_index = Inr d
           \<and> u = \<lparr>u_shard_index = shard_index, u_current_disk_size = d\<rparr>"
  using assms
  by (auto simp: check_and_scale_down_shard_def Let_def split: if_splits sum.splits)

lemma disk_size_absent_default:
  assumes "disk_size_absent cluster_info shard_index"
    and "current_disk_size_of cluster_info shard_index = Inr d"
  shows "d = JFloat 80"
proof -
  from assms(1) obtain rc where rc: "get_region_config cluster_info shard_index = Inr rc"
    and absent: "\<not> truthy rc \<or> (case py_get rc ''effectiveElectableSpecs'' (JObj []) of
                Inr (JObj effective_specs) \<Rightarrow> map_of effective_specs ''diskSizeGB'' = None
              | _ \<Rightarrow> False)"
    by (auto simp: disk_size_absent_def split: sum.splits)
  show ?thesis
  proof (cases "truthy rc")
    case False
    with rc assms(2) show ?thesis by (simp add: current_disk_size_of_def)
  next
    case True
    with absent obtain eff where "py_get rc ''effectiveElectableSpecs'' (JObj []) = Inr (JObj eff)"
      "map_of eff ''diskSizeGB'' = None"
      by (auto split: sum.splits json.splits)
    with rc True assms(2) show ?thesis by (simp add: current_disk_size_of_def)
  qed
qed

lemma get_region_config_put:
  assumes "get_region_config (JObj p) i = Inr (JObj rc)"
  shows "get_region_config (JObj (put_region_config p i rc')) i = Inr rc'"
  using assms
proof (cases rule: get_region_config_obj)
  case (1 specs)
  let ?specs = "specs[nat i := spec_put_region_config (specs ! nat i) rc']"
  have put: "put_region_config p i rc' = AList.update ''replicationSpecs'' (JArr ?specs) p"
    using 1(1) by (simp add: put_region_config_def)
  have "get_region_config (JObj (AList.update ''replicationSpecs'' (JArr ?specs) p)) i
      = spec_region_config (?specs ! nat i)"
    using 1(2,3) by (intro get_region_config_JArr) (simp_all add: AList.update_conv')
  also have "\<dots> = spec_region_config (spec_put_region_config (specs ! nat i) rc')"
    using 1(3) by simp
  also have "\<dots> = Inr rc'" by (rule spec_get_put [OF 1(4)])
  finally show ?thesis by (simp add: put)
qed

lemma update_shard_writes_disk_size:
  assumes upd: "update_shard tier p \<lparr>u_shard_index = i, u_current_disk_size = d\<rparr> = Inr p'"
    and get: "get_region_config (JObj p) i = Inr (JObj rc)"
    and es: "map_of rc ''electableSpecs'' \<noteq> None"
  shows "\<exists>n. py_int d = Inr n \<and> written_disk_size p' i = Inr (JInt n)"
proof -
  from es have truthy: "truthy (JObj rc)" by auto
  from get obtain specs where specs: "map_of p ''replicationSpecs'' = Some (JArr specs)"
    "0 \<le> i" "nat i < length specs"
    by (rule get_region_config_obj)
  then have inrange: "i < int (length specs)" by linarith
  from upd specs(1,2) inrange get truthy obtain changed where
    chg: "apply_tier_change tier d (JObj rc) = Inr changed"
    and p': "p' = (case changed of None \<Rightarrow> p | Some rc' \<Rightarrow> put_region_config p i rc')"
    by (auto simp: update_shard_def Let_def bind_Inr split: option.splits)
  from chg es obtain rc' where some: "changed = Some rc'"
    by (auto simp: apply_tier_change_def bind_Inr split: option.splits json.splits)
  from chg [unfolded some] obtain kvs es0 n where
    n: "py_int d = Inr n"
    and rc': "rc' = JObj (AList.update ''electableSpecs''
                 (JObj (set_electable_specs tier n es0)) kvs)"
    by (rule apply_tier_change_SomeD)
  have "get_region_config (JObj p') i = Inr rc'"
    using get_region_config_put [OF get] p' some by simp
  then have "written_disk_size p' i = Inr (JInt n)"
    by (simp add: written_disk_size_def rc' AList.update_conv' set_electable_specs_lookup)
  with n show ?thesis by blast
qed

text \<open>
  Claim C10. When a shard is found eligible and the cluster document has no region
  config for it, or no \<^verbatim>\<open>diskSizeGB\<close> in its \<^verbatim>\<open>effectiveElectableSpecs\<close>, the
  pending change carries the disk size 80.0; and a pending change with the disk size 80.0,
  applied to a shard whose region config has \<^verbatim>\<open>electableSpecs\<close>, writes the integer
  80 as the shard's \<^verbatim>\<open>diskSizeGB\<close> in the payload.
\<close>

theorem default_disk_size:
  "(check_and_scale_down_shard fromiso obs cluster_name shard_index base_tier scale_up_tier
        last_tier_update min_hours specs config = (Inr (Some u), config') \<longrightarrow>
      disk_size_absent (obs_cluster_details obs) shard_index \<longrightarrow>
      u = \<lparr>u_shard_index = shard_index, u_current_disk_size = JFloat 80\<rparr>)
   \<and> (update_shard tier p \<lparr>u_shard_index = i, u_current_disk_size = JFloat 80\<rparr> = Inr p' \<longrightarrow>
      get_region_config (JObj p) i = Inr (JObj rc) \<longrightarrow>
      map_of rc ''electableSpecs'' \<noteq> None \<longrightarrow>
      written_disk_size p' i = Inr (JInt 80))"
proof (intro conjI impI)
  assume "check_and_scale_down_shard fromiso obs cluster_name shard_index base_tier scale_up_tier
        last_tier_update min_hours specs config = (Inr (Some u), config')"
    and absent: "disk_size_absent (obs_cluster_details obs) shard_index"
  from check_and_scale_down_shard_SomeD(2) [OF this(1)] obtain d where
    d: "current_disk_size_of (obs_cluster_details obs) shard_index = Inr d"
    and u: "u = \<lparr>u_shard_index = shard_index, u_current_disk_size = d\<rparr>"
    by blast
  from disk_size_absent_default [OF absent d] u
  show "u = \<lparr>u_shard_index = shard_index, u_current_disk_size = JFloat 80\<rparr>" by simp
next
  assume "update_shard tier p \<lparr>u_shard_index = i, u_current_disk_size = JFloat 80\<rparr> = Inr p'"
    and "get_region_config (JObj p) i = Inr (JObj rc)"
    and "map_of rc ''electableSpecs'' \<noteq> None"
  from update_shard_writes_disk_size [OF this]
  show "written_disk_size p' i = Inr (JInt 80)"
    by (simp add: trunc_def)
qed


lemma timely_eligible:
  "check_and_scale_down_shard epoch_iso timely_observations ''Cluster0'' 0 ''M30'' ''M40''
     (JStr ''1970-01-01T00:00:00'') 4 example_specs (Some example_config)
   = (Inr (Some default_disk_update), Some example_config)"
  by code_simp

lemma observed_absent: "disk_size_absent observed_cluster 0"
  by code_simp

lemma observed_update:
  "update_shard ''M30'' observed_payload default_disk_update = Inr observed_payload_changed"
  by code_simp

lemma observed_get: "get_region_config (JObj observed_payload) 0 = Inr observed_region"
  by code_simp

theorem default_disk_size_witness:
  "disk_size_absent observed_cluster 0
   \<and> check_and_scale_down_shard epoch_iso timely_observations ''Cluster0'' 0 ''M30'' ''M40''
        (JStr ''1970-01-01T00:00:00'') 4 example_specs (Some example_config)
       = (Inr (Some default_disk_update), Some example_config)
   \<and> default_disk_update = \<lparr>u_shard_index = 0, u_current_disk_size = JFloat 80\<rparr>
   \<and> update_shard ''M30'' observed_payload default_disk_update = Inr observed_payload_changed
   \<and> written_disk_size observed_payload_changed 0 = Inr (JInt 80)"
proof -
  have details: "obs_cluster_details timely_observations = observed_cluster"
    by (simp add: timely_observations_def)
  have es: "observed_region = JObj (case observed_region of JObj kvs \<Rightarrow> kvs | _ \<Rightarrow> [])"
    "map_of (case observed_region of JObj kvs \<Rightarrow> kvs | _ \<Rightarrow> []) ''electableSpecs'' \<noteq> None"
    by (simp_all add: observed_region_def)
  from default_disk_size [where fromiso = epoch_iso and obs = timely_observations
      and cluster_name = "''Cluster0''" and shard_index = 0 and base_tier = "''M30''"
      and scale_up_tier = "''M40''" and last_tier_update = "JStr ''1970-01-01T00:00:00''"
      and min_hours = 4 and specs = example_specs and config = "Some example_config"
      and u = default_disk_update and config' = "Some example_config"
      and tier = "''M30''" and p = observed_payload and i = 0 and p' = observed_payload_changed
      and rc = "case observed_region of JObj kvs \<Rightarrow> kvs | _ \<Rightarrow> []"]
    timely_eligible observed_absent observed_update observed_get es details
  show ?thesis by (simp add: default_disk_update_def)
qed

section \<open>Properties of monitoring one cluster\<close>





subsection \<open>What a timestamp write leaves alone\<close>
















end
